theory Spec2Isabelle
  imports Complex_Main "HOL-Library.Word"
begin

unbundle bit_operations_syntax

section \<open>Data model\<close>

text \<open>
  The development embeds \<^verbatim>\<open>include/metavision_ros_driver/driver_ros1.h\<close>: the class
  template \<^verbatim>\<open>DriverROS1<MsgType>\<close> with its generic \<^verbatim>\<open>publish\<close> (the verbose
  encoding, one event record per event), the specialisation of \<^verbatim>\<open>publish\<close> for
  \<^verbatim>\<open>event_array2_msgs::EventArray2\<close> (the compact encoding, one 64-bit word per event)
  and \<^verbatim>\<open>start\<close>.

  Isabelle does not accept names that end in an underscore, so the member \<^verbatim>\<open>t0_\<close> of the
  class is the field \<open>d_t0\<close> of the record \<open>Driver\<close>, \<^verbatim>\<open>msg_\<close> is \<open>d_msg\<close>, and so on.
  The fields of the other records carry a prefix as well, since a record field is a
  constant of the theory: \<open>cd_\<close> for \<^verbatim>\<open>Metavision::EventCD\<close>, \<open>ev_\<close> for the event of the
  verbose message, \<open>h_\<close> for \<^verbatim>\<open>std_msgs/Header\<close>, \<open>ea_\<close> for the verbose message,
  \<open>ea2_\<close> for \<^verbatim>\<open>EventArray2\<close>.
\<close>

type_synonym u16 = "16 word"
type_synonym u32 = "32 word"
type_synonym u64 = "64 word"

text \<open>
  Modelled from the spec: the declaration of \<^verbatim>\<open>Metavision::EventCD\<close> belongs to the sensor
  SDK and is not among the sources. The spec gives the raw event as
  \<^verbatim>\<open>{x: u16, y: u16, polarity: bit, t: u64 sensor-relative microseconds}\<close>.
\<close>

record EventCD =
  cd_x :: u16
  cd_y :: u16
  cd_p :: bool
  cd_t :: u64

text \<open>
  \<^verbatim>\<open>ros::Time\<close> and \<^verbatim>\<open>ros::Duration\<close> are types of the ROS time library. A time is
  modelled by the number of nanoseconds it denotes, a duration by a signed number of
  nanoseconds. The library keeps a time as 32-bit seconds and nanoseconds below \<open>10\<^sup>9\<close>
  and throws when the seconds leave the 32-bit range; the functions \<open>Time_fromNSec\<close>,
  \<open>Time_plus\<close> and \<open>Duration_fromSec\<close> below have that exception as an error value.
\<close>

type_synonym Time = nat
type_synonym Duration = int

datatype error =
  OutOfBounds       \<comment> \<open>a read outside the slice or outside the event vector\<close>
  | CastOverflow    \<comment> \<open>a \<^verbatim>\<open>double\<close> converted to an integer type that cannot hold it\<close>
  | CounterOverflow \<comment> \<open>\<^verbatim>\<open>eventCount[p]++\<close> beyond \<^verbatim>\<open>INT_MAX\<close>\<close>
  | TimeRange       \<comment> \<open>\<^verbatim>\<open>std::runtime_error\<close> of the ROS time library\<close>
  | SubstrRange     \<comment> \<open>\<^verbatim>\<open>std::out_of_range\<close> of \<^verbatim>\<open>std::string::substr\<close>\<close>

record Header =
  h_seq :: u32
  h_stamp :: Time
  h_frame_id :: string

text \<open>The event of \<^verbatim>\<open>dvs_msgs/EventArray\<close> and \<^verbatim>\<open>prophesee_event_msgs/EventArray\<close>.\<close>

record Event =
  ev_x :: u16
  ev_y :: u16
  ev_ts :: Time
  ev_polarity :: bool

text \<open>
  The field \<open>ea_reserved\<close> (and \<open>ea2_reserved\<close> below) records the argument of the
  \<^verbatim>\<open>reserve\<close> call on the message's vector.
\<close>

record EventArray =
  ea_header :: Header
  ea_height :: u32
  ea_width :: u32
  ea_events :: "Event list"
  ea_reserved :: nat

record EventArray2 =
  ea2_header :: Header
  ea2_height :: u32
  ea2_width :: u32
  ea2_seq :: u64
  ea2_time_base :: u64
  ea2_p_y_x_t :: "u64 list"
  ea2_reserved :: nat

text \<open>
  Modelled from the spec: \<^verbatim>\<open>MetavisionWrapper\<close> is declared in
  \<^verbatim>\<open>metavision_wrapper.h\<close>, which is not among the sources. The spec gives its statistics
  as counters that only grow: two event counts, one per polarity, and the counts of the
  events and of the messages sent.
\<close>

record Stats =
  eventCount0 :: nat
  eventCount1 :: nat
  eventsSent :: nat
  msgsSent :: nat

definition updateEventCount :: "nat \<Rightarrow> nat \<Rightarrow> Stats \<Rightarrow> Stats" where
  "updateEventCount idx count s =
     (if idx = 0 then s\<lparr>eventCount0 := eventCount0 s + count\<rparr>
      else s\<lparr>eventCount1 := eventCount1 s + count\<rparr>)"

definition updateEventsSent :: "nat \<Rightarrow> Stats \<Rightarrow> Stats" where
  "updateEventsSent inc s = s\<lparr>eventsSent := eventsSent s + inc\<rparr>"

definition updateMsgsSent :: "nat \<Rightarrow> Stats \<Rightarrow> Stats" where
  "updateMsgsSent inc s = s\<lparr>msgsSent := msgsSent s + inc\<rparr>"

text \<open>The members of \<^verbatim>\<open>DriverROS1<MsgType>\<close> that \<^verbatim>\<open>publish\<close> reads and writes.\<close>

record 'm Driver =
  d_frameId :: string
  d_messageTimeThreshold :: Duration
  d_reserveSize :: nat
  d_t0 :: u64
  d_width :: u32
  d_height :: u32
  d_seq :: u64
  d_msg :: "'m option"
  d_wrapper :: Stats

section \<open>Arithmetic in \<^verbatim>\<open>double\<close> on timestamps\<close>

text \<open>
  The expression \<^verbatim>\<open>e.t * 1e3\<close> converts the integer \<^verbatim>\<open>e.t\<close> to \<^verbatim>\<open>double\<close> and multiplies
  in \<^verbatim>\<open>double\<close>. Every value that occurs is a non-negative integer, so a \<^verbatim>\<open>double\<close> is
  modelled by the natural number it denotes, and each conversion and operation rounds
  its exact result to 53 significant bits, to nearest, ties to even (IEEE 754 binary64;
  the results stay far below the largest finite \<^verbatim>\<open>double\<close>). A product and a sum are
  rounded one after the other, as without a fused multiply-add.
\<close>

fun bitlen_nat :: "nat \<Rightarrow> nat" where
  "bitlen_nat n = (if n = 0 then 0 else Suc (bitlen_nat (n div 2)))"

declare bitlen_nat.simps [simp del]

definition rnd53 :: "nat \<Rightarrow> nat" where
  "rnd53 n =
     (if n < 2 ^ 53 then n
      else
        let e = bitlen_nat n - 53;
            q = n div 2 ^ e;
            r = n mod 2 ^ e;
            h = 2 ^ (e - 1)
        in if h < r \<or> (r = h \<and> odd q) then (q + 1) * 2 ^ e else q * 2 ^ e)"

text \<open>\<^verbatim>\<open>e.t * 1e3\<close>, as the natural number the resulting \<^verbatim>\<open>double\<close> denotes.\<close>

definition usec_times_1e3 :: "u64 \<Rightarrow> nat" where
  "usec_times_1e3 t = rnd53 (rnd53 (unat t) * 1000)"

text \<open>
  The conversion of a \<^verbatim>\<open>double\<close> to \<^verbatim>\<open>uint64_t\<close>: the behaviour is undefined when the value
  does not fit.
\<close>

definition double_to_u64 :: "nat \<Rightarrow> error + u64" where
  "double_to_u64 v = (if v < 2 ^ 64 then Inr (of_nat v) else Inl CastOverflow)"

text \<open>
  \<^verbatim>\<open>t0_ + (uint64_t)(e.t * 1e3)\<close> of the compact variant: the product is cast first and
  the sum is a 64-bit unsigned sum.
\<close>

definition abs_ts :: "u64 \<Rightarrow> u64 \<Rightarrow> error + u64" where
  "abs_ts t0 t =
     (case double_to_u64 (usec_times_1e3 t) of
        Inl err \<Rightarrow> Inl err
      | Inr ns \<Rightarrow> Inr (t0 + ns))"

text \<open>
  \<^verbatim>\<open>t0_ + e_src.t * 1e3\<close> of the verbose variant: there is no cast, so \<^verbatim>\<open>t0_\<close> is converted
  to \<^verbatim>\<open>double\<close>, the sum is a sum of \<^verbatim>\<open>double\<close>s, and the result is converted to the
  \<^verbatim>\<open>uint64_t\<close> parameter of \<^verbatim>\<open>fromNSec\<close>.
\<close>

definition verbose_nsec :: "u64 \<Rightarrow> u64 \<Rightarrow> error + u64" where
  "verbose_nsec t0 t = double_to_u64 (rnd53 (rnd53 (unat t0) + usec_times_1e3 t))"

section \<open>The ROS time library at its interface\<close>

definition Time_fromNSec :: "u64 \<Rightarrow> error + Time" where
  "Time_fromNSec t =
     (if unat t div 1000000000 > 4294967295 then Inl TimeRange else Inr (unat t))"

definition Time_plus :: "Time \<Rightarrow> Duration \<Rightarrow> error + Time" where
  "Time_plus t d =
     (let r = int t + d
      in if r < 0 \<or> r div 1000000000 > 4294967295 then Inl TimeRange else Inr (nat r))"

subsection \<open>Arithmetic in \<^verbatim>\<open>double\<close> on the parameters\<close>

text \<open>
  The parameters \<^verbatim>\<open>message_time_threshold\<close> and \<^verbatim>\<open>sensors_max_mevs\<close> are \<^verbatim>\<open>double\<close>s that
  need not be integers. Here a \<^verbatim>\<open>double\<close> is modelled by the real number it denotes, and
  \<open>rnd_double\<close> rounds the exact result of an operation to 53 significant bits, to
  nearest, ties to even: \<open>scale_of x\<close> is the power of two that brings \<open>x\<close> between \<open>2\<^sup>5\<^sup>2\<close>
  and \<open>2\<^sup>5\<^sup>3\<close>. The exponent is not bounded: a result beyond the largest finite \<^verbatim>\<open>double\<close>
  is beyond every integer type it is cast to here, and a result in the subnormal range is
  far below one half, and both casts and roundings to integers below give 0 for it.
\<close>

definition pow2 :: "int \<Rightarrow> real" where
  "pow2 s = (if 0 \<le> s then 2 ^ nat s else 1 / 2 ^ nat (- s))"

definition scale_of :: "real \<Rightarrow> int" where
  "scale_of x =
     (if 1 \<le> x then 53 - int (bitlen_nat (nat \<lfloor>x\<rfloor>))
      else
        let b = bitlen_nat (nat \<lfloor>1 / x\<rfloor>)
        in if 1 \<le> x * 2 ^ (b - 1) then 51 + int b else 52 + int b)"

definition round_half_even :: "real \<Rightarrow> int" where
  "round_half_even z =
     (let f = \<lfloor>z\<rfloor>;
          r = z - of_int f
      in if 1 / 2 < r \<or> (r = 1 / 2 \<and> odd f) then f + 1 else f)"

definition rnd_pos :: "real \<Rightarrow> real" where
  "rnd_pos x = of_int (round_half_even (x * pow2 (scale_of x))) / pow2 (scale_of x)"

definition rnd_double :: "real \<Rightarrow> real" where
  "rnd_double x = (if x = 0 then 0 else if x < 0 then - rnd_pos (- x) else rnd_pos x)"

text \<open>The \<^verbatim>\<open>double\<close> that the literal \<^verbatim>\<open>1e-6\<close> denotes: \<open>4722366482869645 / 2\<^sup>7\<^sup>2\<close>.\<close>

definition double_1e_6 :: real where
  "double_1e_6 = 4722366482869645 / 4722366482869645213696"

text \<open>
  \<^verbatim>\<open>ros::Duration(double)\<close>: whole seconds by \<^verbatim>\<open>floor\<close>, which must fit 32 signed bits; the
  rest, \<^verbatim>\<open>(d - sec) * 1e9\<close> in \<^verbatim>\<open>double\<close>, is rounded to the nearest number of nanoseconds.
\<close>

definition Duration_fromSec :: "real \<Rightarrow> error + Duration" where
  "Duration_fromSec s =
     (let sec = \<lfloor>s\<rfloor>
      in if sec < - 2147483648 \<or> 2147483647 < sec then Inl TimeRange
         else Inr (sec * 1000000000 +
                   round (rnd_double (rnd_double (s - of_int sec) * 1000000000))))"

text \<open>The cast \<^verbatim>\<open>(size_t)\<close> of a \<^verbatim>\<open>double\<close>: truncation, undefined when out of range.\<close>

definition double_to_size :: "real \<Rightarrow> error + nat" where
  "double_to_size v = (if v \<le> - 1 \<or> 2 ^ 64 \<le> v then Inl CastOverflow else Inr (nat \<lfloor>v\<rfloor>))"

section \<open>The compact encoding of one event\<close>

text \<open>
  \<^verbatim>\<open>(uint64_t)e.p << 63 | (uint64_t)e.y << 48 | (uint64_t)e.x << 32 | dt\<close>
\<close>

definition pack :: "bool \<Rightarrow> u16 \<Rightarrow> u16 \<Rightarrow> u64 \<Rightarrow> u64" where
  "pack p y x dt =
     (push_bit 63 (of_bool p) OR push_bit 48 (ucast y) OR push_bit 32 (ucast x) OR dt)"

text \<open>
  The decoder is not part of the driver. These four functions follow the words of the
  wire layout: bit 63 is the polarity, bits 62 to 48 are \<open>y\<close>, bits 47 to 32 are \<open>x\<close>,
  bits 31 to 0 are \<open>dt\<close>.
\<close>

definition unpack_p :: "u64 \<Rightarrow> bool" where
  "unpack_p w = bit w 63"

definition unpack_y :: "u64 \<Rightarrow> u64" where
  "unpack_y w = take_bit 15 (drop_bit 48 w)"

definition unpack_x :: "u64 \<Rightarrow> u64" where
  "unpack_x w = take_bit 16 (drop_bit 32 w)"

definition unpack_dt :: "u64 \<Rightarrow> u64" where
  "unpack_dt w = take_bit 32 w"

text \<open>The body of the loop of the compact variant, without the counter.\<close>

definition pack_event :: "u64 \<Rightarrow> u64 \<Rightarrow> EventCD \<Rightarrow> error + u64" where
  "pack_event t0 t_base e =
     (case abs_ts t0 (cd_t e) of
        Inl err \<Rightarrow> Inl err
      | Inr ts \<Rightarrow>
          let dt = (ts - t_base) AND 0xFFFFFFFF
          in Inr (pack (cd_p e) (cd_y e) (cd_x e) dt))"

text \<open>
  The loop. \<^verbatim>\<open>eventCount\<close> is an array of two \<^verbatim>\<open>int\<close>: incrementing one of them beyond
  \<^verbatim>\<open>INT_MAX\<close> is undefined. The loop variable is an \<^verbatim>\<open>unsigned int\<close> compared with a
  \<^verbatim>\<open>size_t\<close>; a slice long enough to wrap it has overflowed a counter before.
\<close>

fun pack_events ::
  "u64 \<Rightarrow> u64 \<Rightarrow> EventCD list \<Rightarrow> u64 list \<Rightarrow> nat \<Rightarrow> nat \<Rightarrow> error + (u64 list \<times> nat \<times> nat)"
where
  "pack_events t0 t_base [] acc c0 c1 = Inr (acc, c0, c1)"
| "pack_events t0 t_base (e # es) acc c0 c1 =
     (case pack_event t0 t_base e of
        Inl err \<Rightarrow> Inl err
      | Inr w \<Rightarrow>
          if 2147483647 \<le> (if cd_p e then c1 else c0) then Inl CounterOverflow
          else pack_events t0 t_base es (acc @ [w])
                 (if cd_p e then c0 else Suc c0) (if cd_p e then Suc c1 else c1))"

section \<open>The verbose encoding of one event\<close>

definition copy_event :: "u64 \<Rightarrow> EventCD \<Rightarrow> error + Event" where
  "copy_event t0 e_src =
     (case verbose_nsec t0 (cd_t e_src) of
        Inl err \<Rightarrow> Inl err
      | Inr ns \<Rightarrow>
          (case Time_fromNSec ns of
             Inl err \<Rightarrow> Inl err
           | Inr ts \<Rightarrow>
               Inr \<lparr>ev_x = cd_x e_src, ev_y = cd_y e_src, ev_ts = ts,
                    ev_polarity = cd_p e_src\<rparr>))"

fun copy_events ::
  "u64 \<Rightarrow> EventCD list \<Rightarrow> Event list \<Rightarrow> nat \<Rightarrow> nat \<Rightarrow> error + (Event list \<times> nat \<times> nat)"
where
  "copy_events t0 [] acc c0 c1 = Inr (acc, c0, c1)"
| "copy_events t0 (e # es) acc c0 c1 =
     (case copy_event t0 e of
        Inl err \<Rightarrow> Inl err
      | Inr e_trg \<Rightarrow>
          if 2147483647 \<le> (if cd_p e then c1 else c0) then Inl CounterOverflow
          else copy_events t0 es (acc @ [e_trg])
                 (if cd_p e then c0 else Suc c0) (if cd_p e then Suc c1 else c1))"

section \<open>\<^verbatim>\<open>publish\<close>\<close>

text \<open>
  Both variants take the driver, the value of \<^verbatim>\<open>ros::Time::now().toNSec()\<close>, the value of
  \<^verbatim>\<open>pub_.getNumSubscribers()\<close> and the slice (\<open>evs\<close>) \<^verbatim>\<open>[start, end)\<close> as a list. They return the
  driver after the call and the message handed to \<^verbatim>\<open>pub_.publish\<close>, if any.
\<close>

definition set_t0 :: "'m Driver \<Rightarrow> u64 \<Rightarrow> 'm Driver" where
  "set_t0 d now = (if d_t0 d = 0 then d\<lparr>d_t0 := now\<rparr> else d)"

text \<open>The message allocated when \<^verbatim>\<open>msg_\<close> is null, generic variant.\<close>

definition new_msg :: "EventArray Driver \<Rightarrow> EventArray" where
  "new_msg d =
     \<lparr>ea_header = \<lparr>h_seq = ucast (d_seq d), h_stamp = 0, h_frame_id = d_frameId d\<rparr>,
      ea_height = d_height d, ea_width = d_width d, ea_events = [],
      ea_reserved = d_reserveSize d\<rparr>"

definition open_msg :: "EventArray Driver \<Rightarrow> EventArray \<times> EventArray Driver" where
  "open_msg d =
     (case d_msg d of
        None \<Rightarrow> (new_msg d, d\<lparr>d_seq := d_seq d + 1\<rparr>)
      | Some m0 \<Rightarrow> (m0, d))"

definition publish ::
  "EventArray Driver \<Rightarrow> u64 \<Rightarrow> nat \<Rightarrow> EventCD list \<Rightarrow> error + (EventArray Driver \<times> EventArray option)"
where
  "publish d now numSubscribers evs =
     (let d1 = set_t0 d now in
      if numSubscribers = 0 then Inr (d1, None)
      else
        let (m, d2) = open_msg d1
        in case copy_events (d_t0 d2) evs (ea_events m) 0 0 of
             Inl err \<Rightarrow> Inl err
           | Inr (events, c0, c1) \<Rightarrow>
               let w = updateEventCount 1 c1 (updateEventCount 0 c0 (d_wrapper d2))
               in if events = [] then Inl OutOfBounds
                  else
                    let t_msg = ev_ts (hd events);
                        t_last = ev_ts (last events)
                    in case Time_plus t_msg (d_messageTimeThreshold d2) of
                         Inl err \<Rightarrow> Inl err
                       | Inr bound \<Rightarrow>
                           if bound < t_last
                           then Inr (d2\<lparr>d_msg := None,
                                        d_wrapper := updateMsgsSent 1
                                          (updateEventsSent (length events) w)\<rparr>,
                                     Some (m\<lparr>ea_header := (ea_header m)\<lparr>h_stamp := t_msg\<rparr>,
                                             ea_events := events\<rparr>))
                           else Inr (d2\<lparr>d_msg := Some (m\<lparr>ea_events := events\<rparr>),
                                        d_wrapper := w\<rparr>, None))"

text \<open>
  The message allocated when \<^verbatim>\<open>msg_\<close> is null, compact variant: it reads \<^verbatim>\<open>start->t\<close>.
\<close>

definition new_msg2 :: "EventArray2 Driver \<Rightarrow> EventCD list \<Rightarrow> error + EventArray2" where
  "new_msg2 d evs =
     (case evs of
        [] \<Rightarrow> Inl OutOfBounds
      | e # _ \<Rightarrow>
          (case abs_ts (d_t0 d) (cd_t e) of
             Inl err \<Rightarrow> Inl err
           | Inr tb \<Rightarrow>
               (case Time_fromNSec tb of
                  Inl err \<Rightarrow> Inl err
                | Inr stamp \<Rightarrow>
                    Inr \<lparr>ea2_header = \<lparr>h_seq = ucast (d_seq d), h_stamp = stamp,
                                        h_frame_id = d_frameId d\<rparr>,
                         ea2_height = d_height d, ea2_width = d_width d,
                         ea2_seq = d_seq d + 1, ea2_time_base = tb, ea2_p_y_x_t = [],
                         ea2_reserved = d_reserveSize d\<rparr>)))"

definition open_msg2 ::
  "EventArray2 Driver \<Rightarrow> EventCD list \<Rightarrow> error + (EventArray2 \<times> EventArray2 Driver)"
where
  "open_msg2 d evs =
     (case d_msg d of
        None \<Rightarrow>
          (case new_msg2 d evs of
             Inl err \<Rightarrow> Inl err
           | Inr m \<Rightarrow> Inr (m, d\<lparr>d_seq := d_seq d + 1\<rparr>))
      | Some m0 \<Rightarrow> Inr (m0, d))"

definition publish2 ::
  "EventArray2 Driver \<Rightarrow> u64 \<Rightarrow> nat \<Rightarrow> EventCD list \<Rightarrow>
     error + (EventArray2 Driver \<times> EventArray2 option)"
where
  "publish2 d now numSubscribers evs =
     (let d1 = set_t0 d now in
      if numSubscribers = 0 then Inr (d1, None)
      else
        case open_msg2 d1 evs of
          Inl err \<Rightarrow> Inl err
        | Inr (m, d2) \<Rightarrow>
            (case pack_events (d_t0 d2) (ea2_time_base m) evs (ea2_p_y_x_t m) 0 0 of
               Inl err \<Rightarrow> Inl err
             | Inr (words, c0, c1) \<Rightarrow>
                 let w = updateEventCount 1 c1 (updateEventCount 0 c0 (d_wrapper d2))
                 in if evs = [] then Inl OutOfBounds
                    else
                      (case abs_ts (d_t0 d2) (cd_t (last evs)) of
                         Inl err \<Rightarrow> Inl err
                       | Inr ns \<Rightarrow>
                           (case Time_fromNSec ns of
                              Inl err \<Rightarrow> Inl err
                            | Inr t_last \<Rightarrow>
                                (case Time_plus (h_stamp (ea2_header m))
                                        (d_messageTimeThreshold d2) of
                                   Inl err \<Rightarrow> Inl err
                                 | Inr bound \<Rightarrow>
                                     if bound < t_last
                                     then Inr (d2\<lparr>d_msg := None,
                                                  d_wrapper := updateMsgsSent 1
                                                    (updateEventsSent (length words) w)\<rparr>,
                                               Some (m\<lparr>ea2_p_y_x_t := words\<rparr>))
                                     else Inr (d2\<lparr>d_msg := Some (m\<lparr>ea2_p_y_x_t := words\<rparr>),
                                                  d_wrapper := w\<rparr>, None))))))"

text \<open>The batch a call leaves behind: the one it emitted, or else the one still open.\<close>

definition batch_after :: "'m Driver \<Rightarrow> 'm option \<Rightarrow> 'm option" where
  "batch_after d out = (case out of Some m \<Rightarrow> Some m | None \<Rightarrow> d_msg d)"

section \<open>\<^verbatim>\<open>start\<close>\<close>

text \<open>
  The parameters \<^verbatim>\<open>start\<close> reads from the node handle that reach the driver's state, and
  what it reads from the camera wrapper.
\<close>

record Params =
  p_frame_id :: string
  p_message_time_threshold :: real
  p_sensors_max_mevs :: real

record Camera =
  c_initialize :: bool
  c_width :: u32
  c_height :: u32
  c_serial :: string

definition substr_from :: "string \<Rightarrow> int \<Rightarrow> error + string" where
  "substr_from s pos = (if pos < 0 then Inl SubstrRange else Inr (drop (nat pos) s))"

text \<open>
  \<^verbatim>\<open>(size_t)(sensors_max_mevs / std::max(mtt, 1e-6))\<close>: the maximum is exact, the quotient is
  a quotient of \<^verbatim>\<open>double\<close>s.
\<close>

definition reserve_size :: "real \<Rightarrow> real \<Rightarrow> error + nat" where
  "reserve_size sensors_max_mevs mtt =
     double_to_size (rnd_double (sensors_max_mevs / max mtt double_1e_6))"

definition start :: "Params \<Rightarrow> Camera \<Rightarrow> error + (bool \<times> 'm Driver)" where
  "start ps cam =
     (let mtt = p_message_time_threshold ps in
      case Duration_fromSec mtt of
        Inl err \<Rightarrow> Inl err
      | Inr thr \<Rightarrow>
          (case reserve_size (p_sensors_max_mevs ps) mtt of
             Inl err \<Rightarrow> Inl err
           | Inr rs \<Rightarrow>
               let d = \<lparr>d_frameId = p_frame_id ps, d_messageTimeThreshold = thr,
                        d_reserveSize = rs, d_t0 = 0, d_width = 0, d_height = 0,
                        d_seq = 0, d_msg = None,
                        d_wrapper = \<lparr>eventCount0 = 0, eventCount1 = 0, eventsSent = 0,
                                      msgsSent = 0\<rparr>\<rparr>
               in if \<not> c_initialize cam then Inr (False, d)
                  else
                    let d' = d\<lparr>d_width := c_width cam, d_height := c_height cam\<rparr>
                    in if d_frameId d' = []
                       then (case substr_from (c_serial cam) (int (length (c_serial cam)) - 4) of
                               Inl err \<Rightarrow> Inl err
                             | Inr f \<Rightarrow> Inr (True, d'\<lparr>d_frameId := f\<rparr>))
                       else Inr (True, d')))"

text \<open>
  The reservation in the words of the spec: the expected maximum event rate, which the
  parameter gives in millions of events per second, times the flush threshold.
\<close>

definition spec_reserve_size :: "real \<Rightarrow> real \<Rightarrow> nat" where
  "spec_reserve_size sensors_max_mevs mtt = nat \<lfloor>sensors_max_mevs * 1000000 * mtt\<rfloor>"

section \<open>Concrete inputs\<close>

text \<open>
  A driver with the default threshold of 100 microseconds, a time base of 1000 ns and no
  open message, for each message type; the event of the spec's scenario (\<open>x = 5\<close>,
  \<open>y = 5\<close>, polarity 0) at a given sensor time; parameters and a camera for \<^verbatim>\<open>start\<close>.
\<close>

definition ex_stats :: Stats where
  "ex_stats = \<lparr>eventCount0 = 0, eventCount1 = 0, eventsSent = 0, msgsSent = 0\<rparr>"

definition ex_driver :: "EventArray Driver" where
  "ex_driver =
     \<lparr>d_frameId = ''cam'', d_messageTimeThreshold = 100000, d_reserveSize = 5000,
      d_t0 = 1000, d_width = 640, d_height = 480, d_seq = 7, d_msg = None,
      d_wrapper = ex_stats\<rparr>"

definition ex_driver2 :: "EventArray2 Driver" where
  "ex_driver2 =
     \<lparr>d_frameId = ''cam'', d_messageTimeThreshold = 100000, d_reserveSize = 5000,
      d_t0 = 1000, d_width = 640, d_height = 480, d_seq = 7, d_msg = None,
      d_wrapper = ex_stats\<rparr>"

definition ex_event :: "u64 \<Rightarrow> EventCD" where
  "ex_event t = \<lparr>cd_x = 5, cd_y = 5, cd_p = False, cd_t = t\<rparr>"

definition ex_camera :: Camera where
  "ex_camera = \<lparr>c_initialize = True, c_width = 640, c_height = 480, c_serial = ''00001234''\<rparr>"

definition ex_params :: "real \<Rightarrow> real \<Rightarrow> Params" where
  "ex_params mtt mevs =
     \<lparr>p_frame_id = ''cam'', p_message_time_threshold = mtt, p_sensors_max_mevs = mevs\<rparr>"

section \<open>The packed word\<close>

lemma bit_pack:
  "bit (pack p y x dt) n \<longleftrightarrow>
     (n = 63 \<and> p) \<or> (48 \<le> n \<and> n < 64 \<and> bit y (n - 48)) \<or>
     (32 \<le> n \<and> n < 48 \<and> bit x (n - 32)) \<or> bit dt n"
  unfolding pack_def
  by (auto simp add: bit_simps dest: bit_imp_le_length)

lemma hi_bits_clear:
  fixes w :: "'a::len word"
  assumes "w < 2 ^ k" and "k \<le> n"
  shows "\<not> bit w n"
proof -
  have "w AND mask k = w" using assms(1) by (rule less_mask_eq)
  then have "bit w n \<longleftrightarrow> bit (w AND mask k) n" by simp
  with assms(2) show ?thesis by (simp add: bit_and_iff bit_mask_iff)
qed

lemma low_bits_only:
  fixes w :: "'a::len word"
  assumes "w < 2 ^ k" and "bit w n"
  shows "n < k"
  using hi_bits_clear [OF assms(1), of n] assms(2) by (cases "n < k") simp_all

lemma unpack_dt_pack:
  assumes "dt < 2 ^ 32"
  shows "unpack_dt (pack p y x dt) = dt"
  unfolding unpack_dt_def
  by (rule bit_eqI) (auto simp add: bit_simps bit_pack dest: low_bits_only [OF assms])

lemma unpack_x_pack:
  assumes "dt < 2 ^ 32"
  shows "unpack_x (pack p y x dt) = ucast x"
  unfolding unpack_x_def
  by (rule bit_eqI)
    (auto simp add: bit_simps bit_pack dest: low_bits_only [OF assms] bit_imp_le_length)

lemma unpack_y_pack_any:
  assumes "dt < 2 ^ 32"
  shows "unpack_y (pack p y x dt) = take_bit 15 (ucast y)"
  unfolding unpack_y_def
  by (rule bit_eqI)
    (auto simp add: bit_simps bit_pack dest: low_bits_only [OF assms] bit_imp_le_length)

lemma unpack_p_pack_any:
  assumes "dt < 2 ^ 32"
  shows "unpack_p (pack p y x dt) = (p \<or> bit y 15)"
  unfolding unpack_p_def
  by (auto simp add: bit_pack dest: low_bits_only [OF assms])

lemma take_bit_15_ucast:
  fixes y :: u16
  assumes "y < 2 ^ 15"
  shows "take_bit 15 (ucast y :: u64) = ucast y"
  by (rule bit_eqI) (auto simp add: bit_simps dest: low_bits_only [OF assms])

lemma and_low32: "(w AND 0xFFFFFFFF :: u64) = take_bit 32 w"
  by (simp add: take_bit_eq_mask mask_eq_exp_minus_1)

lemma masked_dt_less: "(w AND 0xFFFFFFFF :: u64) < 2 ^ 32"
proof -
  have "w AND mask 32 < 2 ^ 32" by (rule and_mask_less_size) (simp add: word_size)
  then show ?thesis by (simp add: and_low32 take_bit_eq_mask)
qed

lemma uint_masked_diff:
  "uint ((a - b) AND 0xFFFFFFFF :: u64) = (uint a - uint b) mod 2 ^ 32"
proof -
  have "uint ((a - b) AND 0xFFFFFFFF) = uint (a - b) mod 2 ^ 32"
    unfolding and_low32 unsigned_take_bit_eq by (simp add: take_bit_eq_mod)
  also have "uint (a - b) = (uint a - uint b) mod 2 ^ 64"
    by (simp add: uint_word_ariths)
  also have "(uint a - uint b) mod 2 ^ 64 mod 2 ^ 32 = (uint a - uint b) mod 2 ^ 32"
    by (rule mod_mod_cancel) simp
  finally show ?thesis .
qed

text \<open>
  C1. Compact round trip. For every polarity \<open>p\<close>, every \<open>y\<close> below \<open>2\<^sup>1\<^sup>5\<close>, every
  \<open>x\<close> (a 16-bit value, so below \<open>2\<^sup>1\<^sup>6\<close>) and every \<open>dt\<close> below \<open>2\<^sup>3\<^sup>2\<close>, the word
  \<^verbatim>\<open>p<<63 | y<<48 | x<<32 | dt\<close> gives back the four values: bit 63 is \<open>p\<close>, bits 62 to 48
  are \<open>y\<close>, bits 47 to 32 are \<open>x\<close>, bits 31 to 0 are \<open>dt\<close>.
\<close>

theorem compact_round_trip:
  assumes "y < 2 ^ 15" and "dt < 2 ^ 32"
  shows "unpack_p (pack p y x dt) = p \<and> unpack_y (pack p y x dt) = ucast y \<and>
         unpack_x (pack p y x dt) = ucast x \<and> unpack_dt (pack p y x dt) = dt"
proof -
  have "\<not> bit y 15"
    using low_bits_only [OF assms(1), of 15] by auto
  then have "unpack_p (pack p y x dt) = p"
    by (simp add: unpack_p_pack_any [OF assms(2)])
  moreover have "unpack_y (pack p y x dt) = ucast y"
    by (simp add: unpack_y_pack_any [OF assms(2)] take_bit_15_ucast [OF assms(1)])
  moreover note unpack_x_pack [OF assms(2), of p y x] unpack_dt_pack [OF assms(2), of p y x]
  ultimately show ?thesis by simp
qed

theorem compact_round_trip_witness:
  "(480 :: u16) < 2 ^ 15 \<and> (101000 :: u64) < 2 ^ 32 \<and>
   unpack_p (pack True 480 640 101000) = True \<and>
   unpack_y (pack True 480 640 101000) = 480 \<and>
   unpack_x (pack True 480 640 101000) = 640 \<and>
   unpack_dt (pack True 480 640 101000) = 101000"
  using compact_round_trip [of 480 101000 True 640] by simp

section \<open>The loops\<close>

lemma pack_events_Inr:
  "pack_events t0 tb es acc c0 c1 = Inr (ws, k0, k1) \<Longrightarrow>
     \<exists>new. ws = acc @ new \<and> list_all2 (\<lambda>e w. pack_event t0 tb e = Inr w) es new"
proof (induction es arbitrary: acc c0 c1)
  case Nil
  then show ?case by simp
next
  case (Cons e es)
  from Cons.prems obtain w where w: "pack_event t0 tb e = Inr w"
    and rest: "pack_events t0 tb es (acc @ [w]) (if cd_p e then c0 else Suc c0)
                 (if cd_p e then Suc c1 else c1) = Inr (ws, k0, k1)"
    by (auto split: sum.splits if_splits)
  from Cons.IH [OF rest] obtain new where "ws = (acc @ [w]) @ new"
    and "list_all2 (\<lambda>e w. pack_event t0 tb e = Inr w) es new" by blast
  with w have "ws = acc @ (w # new) \<and>
      list_all2 (\<lambda>e w. pack_event t0 tb e = Inr w) (e # es) (w # new)"
    by simp
  then show ?case by blast
qed

lemma copy_events_Inr:
  "copy_events t0 es acc c0 c1 = Inr (evs, k0, k1) \<Longrightarrow>
     \<exists>new. evs = acc @ new \<and> list_all2 (\<lambda>e ev. copy_event t0 e = Inr ev) es new"
proof (induction es arbitrary: acc c0 c1)
  case Nil
  then show ?case by simp
next
  case (Cons e es)
  from Cons.prems obtain w where w: "copy_event t0 e = Inr w"
    and rest: "copy_events t0 es (acc @ [w]) (if cd_p e then c0 else Suc c0)
                 (if cd_p e then Suc c1 else c1) = Inr (evs, k0, k1)"
    by (auto split: sum.splits if_splits)
  from Cons.IH [OF rest] obtain new where "evs = (acc @ [w]) @ new"
    and "list_all2 (\<lambda>e ev. copy_event t0 e = Inr ev) es new" by blast
  with w have "evs = acc @ (w # new) \<and>
      list_all2 (\<lambda>e ev. copy_event t0 e = Inr ev) (e # es) (w # new)"
    by simp
  then show ?case by blast
qed

lemma list_all2_last:
  assumes "list_all2 P xs ys" and "xs \<noteq> []"
  shows "P (last xs) (last ys)"
proof -
  from assms have len: "length xs = length ys" and "ys \<noteq> []"
    by (auto simp add: list_all2_conv_all_nth)
  with assms show ?thesis
    by (simp add: list_all2_conv_all_nth last_conv_nth)
qed

section \<open>The calls, case by case\<close>

lemma set_t0_fields:
  "d_msg (set_t0 d now) = d_msg d"
  "d_messageTimeThreshold (set_t0 d now) = d_messageTimeThreshold d"
  "d_t0 (set_t0 d now) = (if d_t0 d = 0 then now else d_t0 d)"
  by (simp_all add: set_t0_def)

lemma open_msg_fields:
  assumes "open_msg d = (m, d2)"
  shows "d_t0 d2 = d_t0 d"
    and "d_messageTimeThreshold d2 = d_messageTimeThreshold d"
    and "ea_events m = (case d_msg d of None \<Rightarrow> [] | Some m0 \<Rightarrow> ea_events m0)"
  using assms by (auto simp add: open_msg_def new_msg_def split: option.splits)

lemma open_msg2_fields:
  assumes "open_msg2 d evs = Inr (m, d2)"
  shows "d_t0 d2 = d_t0 d"
    and "d_messageTimeThreshold d2 = d_messageTimeThreshold d"
    and "ea2_p_y_x_t m = (case d_msg d of None \<Rightarrow> [] | Some m0 \<Rightarrow> ea2_p_y_x_t m0)"
    and "d_msg d = None \<Longrightarrow>
           evs \<noteq> [] \<and> abs_ts (d_t0 d) (cd_t (hd evs)) = Inr (ea2_time_base m) \<and>
           h_stamp (ea2_header m) = unat (ea2_time_base m)"
  using assms
  by (auto simp add: open_msg2_def new_msg2_def Time_fromNSec_def
      split: option.splits sum.splits list.splits if_splits)

lemma publish_no_subscriber: "publish d now 0 evs = Inr (set_t0 d now, None)"
  by (simp add: publish_def)

lemma publish2_no_subscriber: "publish2 d now 0 evs = Inr (set_t0 d now, None)"
  by (simp add: publish2_def)

lemma publish_Inr:
  assumes "publish d now n evs = Inr (d', out)" and "n \<noteq> 0"
  obtains m d2 events c0 c1 bound where
    "open_msg (set_t0 d now) = (m, d2)"
    "copy_events (d_t0 d2) evs (ea_events m) 0 0 = Inr (events, c0, c1)"
    "events \<noteq> []"
    "Time_plus (ev_ts (hd events)) (d_messageTimeThreshold d2) = Inr bound"
    "d_t0 d' = d_t0 d2"
    "bound < ev_ts (last events) \<Longrightarrow>
       out = Some (m\<lparr>ea_header := (ea_header m)\<lparr>h_stamp := ev_ts (hd events)\<rparr>,
                     ea_events := events\<rparr>) \<and> d_msg d' = None"
    "\<not> bound < ev_ts (last events) \<Longrightarrow>
       out = None \<and> d_msg d' = Some (m\<lparr>ea_events := events\<rparr>)"
  using assms unfolding publish_def Let_def
  by (auto split: sum.splits prod.splits if_splits)

lemma publish2_Inr:
  assumes "publish2 d now n evs = Inr (d', out)" and "n \<noteq> 0"
  obtains m d2 ws c0 c1 ns t_last bound where
    "open_msg2 (set_t0 d now) evs = Inr (m, d2)"
    "pack_events (d_t0 d2) (ea2_time_base m) evs (ea2_p_y_x_t m) 0 0 = Inr (ws, c0, c1)"
    "evs \<noteq> []"
    "abs_ts (d_t0 d2) (cd_t (last evs)) = Inr ns"
    "Time_fromNSec ns = Inr t_last"
    "Time_plus (h_stamp (ea2_header m)) (d_messageTimeThreshold d2) = Inr bound"
    "d_t0 d' = d_t0 d2"
    "bound < t_last \<Longrightarrow> out = Some (m\<lparr>ea2_p_y_x_t := ws\<rparr>) \<and> d_msg d' = None"
    "\<not> bound < t_last \<Longrightarrow> out = None \<and> d_msg d' = Some (m\<lparr>ea2_p_y_x_t := ws\<rparr>)"
  using assms unfolding publish2_def Let_def
  by (auto split: sum.splits prod.splits if_splits)

lemma Time_plus_Inr:
  assumes "Time_plus t d = Inr bound"
  shows "int bound = int t + d"
  using assms by (auto simp add: Time_plus_def Let_def split: if_splits)

lemma Time_fromNSec_Inr:
  assumes "Time_fromNSec ns = Inr t"
  shows "t = unat ns"
  using assms by (auto simp add: Time_fromNSec_def split: if_splits)

lemmas ev_defs = ex_stats_def ex_driver_def ex_driver2_def ex_event_def
  publish_def publish2_def set_t0_def open_msg_def open_msg2_def new_msg2_def new_msg_def
  pack_event_def copy_event_def pack_def abs_ts_def verbose_nsec_def usec_times_1e3_def
  rnd53_def double_to_u64_def Time_fromNSec_def Time_plus_def
  updateEventCount_def updateEventsSent_def updateMsgsSent_def Let_def

lemma pack_event_Inr:
  assumes "pack_event t0 tb e = Inr w"
  obtains ts where "abs_ts t0 (cd_t e) = Inr ts"
    and "w = pack (cd_p e) (cd_y e) (cd_x e) ((ts - tb) AND 0xFFFFFFFF)"
  using assms by (auto simp add: pack_event_def Let_def split: sum.splits)

text \<open>
  C2, as the code has it. A call with a subscriber decides once, after the whole slice is
  appended, and on the last event only: the batch is flushed exactly when that event's
  timestamp is strictly greater than the stamp of the batch plus the threshold. In the
  generic variant the stamp is the timestamp of the first stored event and the last
  event is the last stored one; in the compact variant the stamp is the header stamp,
  which is the time base of the batch, the timestamp of the first event of the slice
  that opened it, and the last event is the last one of the slice. At a timestamp equal
  to stamp plus threshold the batch stays open.
\<close>

theorem flush_rule:
  "(publish d now n evs = Inr (d', out) \<and> n \<noteq> 0 \<longrightarrow>
      (\<exists>m. batch_after d' out = Some m \<and> ea_events m \<noteq> [] \<and>
           ((out \<noteq> None) =
            (int (ev_ts (hd (ea_events m))) + d_messageTimeThreshold d
               < int (ev_ts (last (ea_events m))))))) \<and>
   (publish2 d2 now2 n2 evs2 = Inr (d2', out2) \<and> n2 \<noteq> 0 \<longrightarrow>
      (\<exists>m ts. batch_after d2' out2 = Some m \<and> evs2 \<noteq> [] \<and>
           abs_ts (d_t0 d2') (cd_t (last evs2)) = Inr ts \<and>
           ((out2 \<noteq> None) =
            (int (h_stamp (ea2_header m)) + d_messageTimeThreshold d2 < uint ts)) \<and>
           (d_msg d2 = None \<longrightarrow>
              abs_ts (d_t0 d2') (cd_t (hd evs2)) = Inr (ea2_time_base m) \<and>
              h_stamp (ea2_header m) = unat (ea2_time_base m))))"
proof (intro conjI impI)
  assume "publish d now n evs = Inr (d', out) \<and> n \<noteq> 0"
  then have p: "publish d now n evs = Inr (d', out)" and n: "n \<noteq> 0" by simp_all
  obtain m d2 events c0 c1 bound where
    op: "open_msg (set_t0 d now) = (m, d2)"
    and "copy_events (d_t0 d2) evs (ea_events m) 0 0 = Inr (events, c0, c1)"
    and ne: "events \<noteq> []"
    and tp: "Time_plus (ev_ts (hd events)) (d_messageTimeThreshold d2) = Inr bound"
    and "d_t0 d' = d_t0 d2"
    and yes: "bound < ev_ts (last events) \<Longrightarrow>
       out = Some (m\<lparr>ea_header := (ea_header m)\<lparr>h_stamp := ev_ts (hd events)\<rparr>,
                     ea_events := events\<rparr>) \<and> d_msg d' = None"
    and no: "\<not> bound < ev_ts (last events) \<Longrightarrow>
       out = None \<and> d_msg d' = Some (m\<lparr>ea_events := events\<rparr>)"
    by (rule publish_Inr [OF p n]) blast
  have thr: "d_messageTimeThreshold d2 = d_messageTimeThreshold d"
    using open_msg_fields(2) [OF op] by (simp add: set_t0_fields)
  have b: "int bound = int (ev_ts (hd events)) + d_messageTimeThreshold d"
    using Time_plus_Inr [OF tp] thr by simp
  show "\<exists>m. batch_after d' out = Some m \<and> ea_events m \<noteq> [] \<and>
           ((out \<noteq> None) =
            (int (ev_ts (hd (ea_events m))) + d_messageTimeThreshold d
               < int (ev_ts (last (ea_events m)))))"
  proof (cases "bound < ev_ts (last events)")
    case True
    then have "int (ev_ts (hd events)) + d_messageTimeThreshold d < int (ev_ts (last events))"
      using b by linarith
    with yes [OF True] ne show ?thesis by (simp add: batch_after_def)
  next
    case False
    then have "\<not> int (ev_ts (hd events)) + d_messageTimeThreshold d < int (ev_ts (last events))"
      using b by linarith
    with no [OF False] ne show ?thesis by (simp add: batch_after_def)
  qed
next
  assume "publish2 d2 now2 n2 evs2 = Inr (d2', out2) \<and> n2 \<noteq> 0"
  then have p: "publish2 d2 now2 n2 evs2 = Inr (d2', out2)" and n: "n2 \<noteq> 0" by simp_all
  obtain m dd ws c0 c1 ns t_last bound where
    op: "open_msg2 (set_t0 d2 now2) evs2 = Inr (m, dd)"
    and "pack_events (d_t0 dd) (ea2_time_base m) evs2 (ea2_p_y_x_t m) 0 0 = Inr (ws, c0, c1)"
    and ne: "evs2 \<noteq> []"
    and ts: "abs_ts (d_t0 dd) (cd_t (last evs2)) = Inr ns"
    and fn: "Time_fromNSec ns = Inr t_last"
    and tp: "Time_plus (h_stamp (ea2_header m)) (d_messageTimeThreshold dd) = Inr bound"
    and t0: "d_t0 d2' = d_t0 dd"
    and yes: "bound < t_last \<Longrightarrow> out2 = Some (m\<lparr>ea2_p_y_x_t := ws\<rparr>) \<and> d_msg d2' = None"
    and no: "\<not> bound < t_last \<Longrightarrow>
       out2 = None \<and> d_msg d2' = Some (m\<lparr>ea2_p_y_x_t := ws\<rparr>)"
    by (rule publish2_Inr [OF p n]) blast
  have thr: "d_messageTimeThreshold dd = d_messageTimeThreshold d2"
    using open_msg2_fields(2) [OF op] by (simp add: set_t0_fields)
  have t0': "d_t0 dd = d_t0 (set_t0 d2 now2)"
    by (rule open_msg2_fields(1) [OF op])
  have b: "int bound = int (h_stamp (ea2_header m)) + d_messageTimeThreshold d2"
    using Time_plus_Inr [OF tp] thr by simp
  have tl: "t_last = unat ns" by (rule Time_fromNSec_Inr [OF fn])
  then have tl': "int t_last = uint ns" by simp
  have first: "d_msg d2 = None \<longrightarrow>
      abs_ts (d_t0 d2') (cd_t (hd evs2)) = Inr (ea2_time_base m) \<and>
      h_stamp (ea2_header m) = unat (ea2_time_base m)"
    using open_msg2_fields(4) [OF op] t0 t0' by (simp add: set_t0_fields)
  show "\<exists>m ts. batch_after d2' out2 = Some m \<and> evs2 \<noteq> [] \<and>
           abs_ts (d_t0 d2') (cd_t (last evs2)) = Inr ts \<and>
           ((out2 \<noteq> None) =
            (int (h_stamp (ea2_header m)) + d_messageTimeThreshold d2 < uint ts)) \<and>
           (d_msg d2 = None \<longrightarrow>
              abs_ts (d_t0 d2') (cd_t (hd evs2)) = Inr (ea2_time_base m) \<and>
              h_stamp (ea2_header m) = unat (ea2_time_base m))"
  proof (cases "bound < t_last")
    case True
    then have "int (h_stamp (ea2_header m)) + d_messageTimeThreshold d2 < uint ns"
      using b tl' by linarith
    with yes [OF True] ne ts t0 first show ?thesis by (simp add: batch_after_def)
  next
    case False
    then have "\<not> int (h_stamp (ea2_header m)) + d_messageTimeThreshold d2 < uint ns"
      using b tl' by linarith
    with no [OF False] ne ts t0 first show ?thesis by (simp add: batch_after_def)
  qed
qed

theorem flush_rule_witness:
  "publish ex_driver 0 1 [ex_event 0, ex_event 150] =
     Inr (ex_driver\<lparr>d_seq := 8,
            d_wrapper := \<lparr>eventCount0 = 2, eventCount1 = 0, eventsSent = 2, msgsSent = 1\<rparr>\<rparr>,
          Some \<lparr>ea_header = \<lparr>h_seq = 7, h_stamp = 1000, h_frame_id = ''cam''\<rparr>,
                ea_height = 480, ea_width = 640,
                ea_events = [\<lparr>ev_x = 5, ev_y = 5, ev_ts = 1000, ev_polarity = False\<rparr>,
                             \<lparr>ev_x = 5, ev_y = 5, ev_ts = 151000, ev_polarity = False\<rparr>],
                ea_reserved = 5000\<rparr>) \<and>
   publish2 ex_driver2 0 1 [ex_event 0, ex_event 150] =
     Inr (ex_driver2\<lparr>d_seq := 8,
            d_wrapper := \<lparr>eventCount0 = 2, eventCount1 = 0, eventsSent = 2, msgsSent = 1\<rparr>\<rparr>,
          Some \<lparr>ea2_header = \<lparr>h_seq = 7, h_stamp = 1000, h_frame_id = ''cam''\<rparr>,
                ea2_height = 480, ea2_width = 640, ea2_seq = 8, ea2_time_base = 1000,
                ea2_p_y_x_t = [0x5000500000000, 0x50005000249F0], ea2_reserved = 5000\<rparr>) \<and>
   (1 :: nat) \<noteq> 0 \<and>
   (1000 :: int) + d_messageTimeThreshold ex_driver < 151000 \<and>
   (1000 :: int) + d_messageTimeThreshold ex_driver2 < uint (151000 :: u64)"
proof -
  let ?d' = "ex_driver\<lparr>d_seq := 8,
            d_wrapper := \<lparr>eventCount0 = 2, eventCount1 = 0, eventsSent = 2, msgsSent = 1\<rparr>\<rparr>"
  let ?m = "\<lparr>ea_header = \<lparr>h_seq = 7, h_stamp = 1000, h_frame_id = ''cam''\<rparr>,
                ea_height = 480, ea_width = 640,
                ea_events = [\<lparr>ev_x = 5, ev_y = 5, ev_ts = 1000, ev_polarity = False\<rparr>,
                             \<lparr>ev_x = 5, ev_y = 5, ev_ts = 151000, ev_polarity = False\<rparr>],
                ea_reserved = 5000\<rparr>"
  let ?d2' = "ex_driver2\<lparr>d_seq := 8,
            d_wrapper := \<lparr>eventCount0 = 2, eventCount1 = 0, eventsSent = 2, msgsSent = 1\<rparr>\<rparr>"
  let ?m2 = "\<lparr>ea2_header = \<lparr>h_seq = 7, h_stamp = 1000, h_frame_id = ''cam''\<rparr>,
                ea2_height = 480, ea2_width = 640, ea2_seq = 8, ea2_time_base = 1000,
                ea2_p_y_x_t = [0x5000500000000, 0x50005000249F0], ea2_reserved = 5000\<rparr>"
  have a: "publish ex_driver 0 1 [ex_event 0, ex_event 150] = Inr (?d', Some ?m)"
    by (simp add: ev_defs)
  have b: "publish2 ex_driver2 0 1 [ex_event 0, ex_event 150] = Inr (?d2', Some ?m2)"
    by (simp add: ev_defs)
  have c: "(1 :: nat) \<noteq> 0" by simp
  from flush_rule [of ex_driver 0 1 "[ex_event 0, ex_event 150]" ?d' "Some ?m" ex_driver2 0 1
      "[ex_event 0, ex_event 150]" ?d2' "Some ?m2"]
  have "(\<exists>m. batch_after ?d' (Some ?m) = Some m \<and>
           int (ev_ts (hd (ea_events m))) + d_messageTimeThreshold ex_driver
             < int (ev_ts (last (ea_events m)))) \<and>
        (\<exists>m ts. batch_after ?d2' (Some ?m2) = Some m \<and>
           abs_ts (d_t0 ?d2') (cd_t (last [ex_event 0, ex_event 150])) = Inr ts \<and>
           int (h_stamp (ea2_header m)) + d_messageTimeThreshold ex_driver2 < uint ts)"
    unfolding a b using c by auto
  then have "(1000 :: int) + d_messageTimeThreshold ex_driver < 151000 \<and>
     (1000 :: int) + d_messageTimeThreshold ex_driver2 < uint (151000 :: u64)"
    by (auto simp add: batch_after_def ev_defs)
  with a b c show ?thesis by simp
qed

theorem flush_at_bound_counterexample:
  "publish ex_driver 0 1 [ex_event 0, ex_event 100] =
     Inr (ex_driver\<lparr>d_seq := 8,
            d_msg := Some \<lparr>ea_header = \<lparr>h_seq = 7, h_stamp = 0, h_frame_id = ''cam''\<rparr>,
                ea_height = 480, ea_width = 640,
                ea_events = [\<lparr>ev_x = 5, ev_y = 5, ev_ts = 1000, ev_polarity = False\<rparr>,
                             \<lparr>ev_x = 5, ev_y = 5, ev_ts = 101000, ev_polarity = False\<rparr>],
                ea_reserved = 5000\<rparr>,
            d_wrapper := \<lparr>eventCount0 = 2, eventCount1 = 0, eventsSent = 0, msgsSent = 0\<rparr>\<rparr>,
          None) \<and>
   publish2 ex_driver2 0 1 [ex_event 0, ex_event 100] =
     Inr (ex_driver2\<lparr>d_seq := 8,
            d_msg := Some \<lparr>ea2_header = \<lparr>h_seq = 7, h_stamp = 1000, h_frame_id = ''cam''\<rparr>,
                ea2_height = 480, ea2_width = 640, ea2_seq = 8, ea2_time_base = 1000,
                ea2_p_y_x_t = [0x5000500000000, 0x50005000186A0], ea2_reserved = 5000\<rparr>,
            d_wrapper := \<lparr>eventCount0 = 2, eventCount1 = 0, eventsSent = 0, msgsSent = 0\<rparr>\<rparr>,
          None) \<and>
   abs_ts (d_t0 ex_driver2) (cd_t (ex_event 0)) = Inr 1000 \<and>
   abs_ts (d_t0 ex_driver2) (cd_t (ex_event 100)) = Inr 101000 \<and>
   (101000 :: int) = 1000 + d_messageTimeThreshold ex_driver2"
  by (simp add: ev_defs)

text \<open>
  C3. Triggering-event inclusion. When a call emits a batch, the batch holds what was
  open before followed by the encoding of every event of the slice, in order; its last
  element is the encoding of the last event of the slice, the event whose timestamp
  exceeded the bound, and no batch is left open: the triggering event is in the batch
  that is flushed and not in the next one.
\<close>

theorem triggering_event_included:
  "(publish d now n evs = Inr (d', Some m) \<longrightarrow>
      d_msg d' = None \<and>
      (\<exists>new. ea_events m = (case d_msg d of None \<Rightarrow> [] | Some m0 \<Rightarrow> ea_events m0) @ new \<and>
             list_all2 (\<lambda>e ev. copy_event (d_t0 d') e = Inr ev) evs new) \<and>
      (evs \<noteq> [] \<longrightarrow> copy_event (d_t0 d') (last evs) = Inr (last (ea_events m))) \<and>
      int (ev_ts (hd (ea_events m))) + d_messageTimeThreshold d
        < int (ev_ts (last (ea_events m)))) \<and>
   (publish2 d2 now2 n2 evs2 = Inr (d2', Some m2) \<longrightarrow>
      d_msg d2' = None \<and> evs2 \<noteq> [] \<and>
      (\<exists>new. ea2_p_y_x_t m2 =
               (case d_msg d2 of None \<Rightarrow> [] | Some m0 \<Rightarrow> ea2_p_y_x_t m0) @ new \<and>
             list_all2 (\<lambda>e w. pack_event (d_t0 d2') (ea2_time_base m2) e = Inr w) evs2 new) \<and>
      pack_event (d_t0 d2') (ea2_time_base m2) (last evs2) = Inr (last (ea2_p_y_x_t m2)) \<and>
      (\<exists>ts. abs_ts (d_t0 d2') (cd_t (last evs2)) = Inr ts \<and>
            int (h_stamp (ea2_header m2)) + d_messageTimeThreshold d2 < uint ts))"
proof (intro conjI impI)
  assume p: "publish d now n evs = Inr (d', Some m)"
  have n: "n \<noteq> 0"
  proof
    assume "n = 0"
    with p show False by (simp add: publish_no_subscriber)
  qed
  obtain m0 dd events c0 c1 bound where
    op: "open_msg (set_t0 d now) = (m0, dd)"
    and ce: "copy_events (d_t0 dd) evs (ea_events m0) 0 0 = Inr (events, c0, c1)"
    and ne: "events \<noteq> []"
    and tp: "Time_plus (ev_ts (hd events)) (d_messageTimeThreshold dd) = Inr bound"
    and t0: "d_t0 d' = d_t0 dd"
    and yes: "bound < ev_ts (last events) \<Longrightarrow>
       Some m = Some (m0\<lparr>ea_header := (ea_header m0)\<lparr>h_stamp := ev_ts (hd events)\<rparr>,
                     ea_events := events\<rparr>) \<and> d_msg d' = None"
    and no: "\<not> bound < ev_ts (last events) \<Longrightarrow>
       Some m = None \<and> d_msg d' = Some (m0\<lparr>ea_events := events\<rparr>)"
    by (rule publish_Inr [OF p n]) blast
  from no have flush: "bound < ev_ts (last events)" by auto
  from yes [OF flush] have m: "ea_events m = events" and closed: "d_msg d' = None" by auto
  from copy_events_Inr [OF ce] obtain new where
    new: "events = ea_events m0 @ new"
    and all: "list_all2 (\<lambda>e ev. copy_event (d_t0 dd) e = Inr ev) evs new" by blast
  have old: "ea_events m0 = (case d_msg d of None \<Rightarrow> [] | Some m0 \<Rightarrow> ea_events m0)"
    using open_msg_fields(3) [OF op] by (simp add: set_t0_fields)
  have thr: "d_messageTimeThreshold dd = d_messageTimeThreshold d"
    using open_msg_fields(2) [OF op] by (simp add: set_t0_fields)
  show "d_msg d' = None" by (rule closed)
  show "\<exists>new. ea_events m = (case d_msg d of None \<Rightarrow> [] | Some m0 \<Rightarrow> ea_events m0) @ new \<and>
             list_all2 (\<lambda>e ev. copy_event (d_t0 d') e = Inr ev) evs new"
    using new all old m t0 by auto
  show "copy_event (d_t0 d') (last evs) = Inr (last (ea_events m))" if "evs \<noteq> []"
  proof -
    from all that have "new \<noteq> []" by auto
    then have "last (ea_events m) = last new" using m new by simp
    with list_all2_last [OF all that] t0 show ?thesis by simp
  qed
  show "int (ev_ts (hd (ea_events m))) + d_messageTimeThreshold d
        < int (ev_ts (last (ea_events m)))"
    unfolding m using Time_plus_Inr [OF tp] flush thr by linarith
next
  assume p: "publish2 d2 now2 n2 evs2 = Inr (d2', Some m2)"
  have n: "n2 \<noteq> 0"
  proof
    assume "n2 = 0"
    with p show False by (simp add: publish2_no_subscriber)
  qed
  obtain m0 dd ws c0 c1 ns t_last bound where
    op: "open_msg2 (set_t0 d2 now2) evs2 = Inr (m0, dd)"
    and pe: "pack_events (d_t0 dd) (ea2_time_base m0) evs2 (ea2_p_y_x_t m0) 0 0 = Inr (ws, c0, c1)"
    and ne: "evs2 \<noteq> []"
    and ts: "abs_ts (d_t0 dd) (cd_t (last evs2)) = Inr ns"
    and fn: "Time_fromNSec ns = Inr t_last"
    and tp: "Time_plus (h_stamp (ea2_header m0)) (d_messageTimeThreshold dd) = Inr bound"
    and t0: "d_t0 d2' = d_t0 dd"
    and yes: "bound < t_last \<Longrightarrow> Some m2 = Some (m0\<lparr>ea2_p_y_x_t := ws\<rparr>) \<and> d_msg d2' = None"
    and no: "\<not> bound < t_last \<Longrightarrow>
       Some m2 = None \<and> d_msg d2' = Some (m0\<lparr>ea2_p_y_x_t := ws\<rparr>)"
    by (rule publish2_Inr [OF p n]) blast
  from no have flush: "bound < t_last" by auto
  from yes [OF flush] have m: "m2 = m0\<lparr>ea2_p_y_x_t := ws\<rparr>" and closed: "d_msg d2' = None"
    by auto
  from pack_events_Inr [OF pe] obtain new where
    new: "ws = ea2_p_y_x_t m0 @ new"
    and all: "list_all2 (\<lambda>e w. pack_event (d_t0 dd) (ea2_time_base m0) e = Inr w) evs2 new"
    by blast
  have old: "ea2_p_y_x_t m0 = (case d_msg d2 of None \<Rightarrow> [] | Some m0 \<Rightarrow> ea2_p_y_x_t m0)"
    using open_msg2_fields(3) [OF op] by (simp add: set_t0_fields)
  have thr: "d_messageTimeThreshold dd = d_messageTimeThreshold d2"
    using open_msg2_fields(2) [OF op] by (simp add: set_t0_fields)
  have tl: "int t_last = uint ns" using Time_fromNSec_Inr [OF fn] by simp
  show "d_msg d2' = None" by (rule closed)
  show "evs2 \<noteq> []" by (rule ne)
  show "\<exists>new. ea2_p_y_x_t m2 =
               (case d_msg d2 of None \<Rightarrow> [] | Some m0 \<Rightarrow> ea2_p_y_x_t m0) @ new \<and>
             list_all2 (\<lambda>e w. pack_event (d_t0 d2') (ea2_time_base m2) e = Inr w) evs2 new"
    using new all old m t0 by auto
  show "pack_event (d_t0 d2') (ea2_time_base m2) (last evs2) = Inr (last (ea2_p_y_x_t m2))"
  proof -
    from all ne have "new \<noteq> []" by auto
    then have "last (ea2_p_y_x_t m2) = last new" using m new by simp
    with list_all2_last [OF all ne] t0 m show ?thesis by simp
  qed
  show "\<exists>ts. abs_ts (d_t0 d2') (cd_t (last evs2)) = Inr ts \<and>
            int (h_stamp (ea2_header m2)) + d_messageTimeThreshold d2 < uint ts"
  proof -
    have "int (h_stamp (ea2_header m2)) + d_messageTimeThreshold d2 < uint ns"
      using Time_plus_Inr [OF tp] flush thr tl m by simp
    with ts t0 show ?thesis by simp
  qed
qed

theorem triggering_event_included_witness:
  "publish (ex_driver\<lparr>d_seq := 8,
       d_msg := Some \<lparr>ea_header = \<lparr>h_seq = 7, h_stamp = 0, h_frame_id = ''cam''\<rparr>,
                ea_height = 480, ea_width = 640,
                ea_events = [\<lparr>ev_x = 5, ev_y = 5, ev_ts = 1000, ev_polarity = False\<rparr>,
                             \<lparr>ev_x = 5, ev_y = 5, ev_ts = 41000, ev_polarity = False\<rparr>,
                             \<lparr>ev_x = 5, ev_y = 5, ev_ts = 91000, ev_polarity = False\<rparr>],
                ea_reserved = 5000\<rparr>\<rparr>) 0 1 [ex_event 150] =
     Inr (ex_driver\<lparr>d_seq := 8,
            d_wrapper := \<lparr>eventCount0 = 1, eventCount1 = 0, eventsSent = 4, msgsSent = 1\<rparr>\<rparr>,
          Some \<lparr>ea_header = \<lparr>h_seq = 7, h_stamp = 1000, h_frame_id = ''cam''\<rparr>,
                ea_height = 480, ea_width = 640,
                ea_events = [\<lparr>ev_x = 5, ev_y = 5, ev_ts = 1000, ev_polarity = False\<rparr>,
                             \<lparr>ev_x = 5, ev_y = 5, ev_ts = 41000, ev_polarity = False\<rparr>,
                             \<lparr>ev_x = 5, ev_y = 5, ev_ts = 91000, ev_polarity = False\<rparr>,
                             \<lparr>ev_x = 5, ev_y = 5, ev_ts = 151000, ev_polarity = False\<rparr>],
                ea_reserved = 5000\<rparr>) \<and>
   copy_event 1000 (ex_event 150) =
     Inr \<lparr>ev_x = 5, ev_y = 5, ev_ts = 151000, ev_polarity = False\<rparr> \<and>
   publish2 (ex_driver2\<lparr>d_seq := 8,
       d_msg := Some \<lparr>ea2_header = \<lparr>h_seq = 7, h_stamp = 1000, h_frame_id = ''cam''\<rparr>,
                ea2_height = 480, ea2_width = 640, ea2_seq = 8, ea2_time_base = 1000,
                ea2_p_y_x_t = [1407396358389760, 1407396358429760, 1407396358479760],
                ea2_reserved = 5000\<rparr>\<rparr>) 0 1 [ex_event 150] =
     Inr (ex_driver2\<lparr>d_seq := 8,
            d_wrapper := \<lparr>eventCount0 = 1, eventCount1 = 0, eventsSent = 4, msgsSent = 1\<rparr>\<rparr>,
          Some \<lparr>ea2_header = \<lparr>h_seq = 7, h_stamp = 1000, h_frame_id = ''cam''\<rparr>,
                ea2_height = 480, ea2_width = 640, ea2_seq = 8, ea2_time_base = 1000,
                ea2_p_y_x_t = [1407396358389760, 1407396358429760, 1407396358479760,
                               1407396358539760],
                ea2_reserved = 5000\<rparr>) \<and>
   pack_event 1000 1000 (ex_event 150) = Inr 1407396358539760"
proof -
  let ?d = "ex_driver\<lparr>d_seq := 8,
       d_msg := Some \<lparr>ea_header = \<lparr>h_seq = 7, h_stamp = 0, h_frame_id = ''cam''\<rparr>,
                ea_height = 480, ea_width = 640,
                ea_events = [\<lparr>ev_x = 5, ev_y = 5, ev_ts = 1000, ev_polarity = False\<rparr>,
                             \<lparr>ev_x = 5, ev_y = 5, ev_ts = 41000, ev_polarity = False\<rparr>,
                             \<lparr>ev_x = 5, ev_y = 5, ev_ts = 91000, ev_polarity = False\<rparr>],
                ea_reserved = 5000\<rparr>\<rparr>"
  let ?d2 = "ex_driver2\<lparr>d_seq := 8,
       d_msg := Some \<lparr>ea2_header = \<lparr>h_seq = 7, h_stamp = 1000, h_frame_id = ''cam''\<rparr>,
                ea2_height = 480, ea2_width = 640, ea2_seq = 8, ea2_time_base = 1000,
                ea2_p_y_x_t = [1407396358389760, 1407396358429760, 1407396358479760],
                ea2_reserved = 5000\<rparr>\<rparr>"
  let ?d' = "ex_driver\<lparr>d_seq := 8,
            d_wrapper := \<lparr>eventCount0 = 1, eventCount1 = 0, eventsSent = 4, msgsSent = 1\<rparr>\<rparr>"
  let ?m = "\<lparr>ea_header = \<lparr>h_seq = 7, h_stamp = 1000, h_frame_id = ''cam''\<rparr>,
                ea_height = 480, ea_width = 640,
                ea_events = [\<lparr>ev_x = 5, ev_y = 5, ev_ts = 1000, ev_polarity = False\<rparr>,
                             \<lparr>ev_x = 5, ev_y = 5, ev_ts = 41000, ev_polarity = False\<rparr>,
                             \<lparr>ev_x = 5, ev_y = 5, ev_ts = 91000, ev_polarity = False\<rparr>,
                             \<lparr>ev_x = 5, ev_y = 5, ev_ts = 151000, ev_polarity = False\<rparr>],
                ea_reserved = 5000\<rparr>"
  let ?d2' = "ex_driver2\<lparr>d_seq := 8,
            d_wrapper := \<lparr>eventCount0 = 1, eventCount1 = 0, eventsSent = 4, msgsSent = 1\<rparr>\<rparr>"
  let ?m2 = "\<lparr>ea2_header = \<lparr>h_seq = 7, h_stamp = 1000, h_frame_id = ''cam''\<rparr>,
                ea2_height = 480, ea2_width = 640, ea2_seq = 8, ea2_time_base = 1000,
                ea2_p_y_x_t = [1407396358389760, 1407396358429760, 1407396358479760,
                               1407396358539760],
                ea2_reserved = 5000\<rparr>"
  have a: "publish ?d 0 1 [ex_event 150] = Inr (?d', Some ?m)"
    by (simp add: ev_defs)
  have b: "publish2 ?d2 0 1 [ex_event 150] = Inr (?d2', Some ?m2)"
    by (simp add: ev_defs)
  from triggering_event_included
    [of ?d 0 1 "[ex_event 150]" ?d' ?m ?d2 0 1 "[ex_event 150]" ?d2' ?m2]
  have "copy_event (d_t0 ?d') (last [ex_event 150]) = Inr (last (ea_events ?m)) \<and>
        pack_event (d_t0 ?d2') (ea2_time_base ?m2) (last [ex_event 150]) =
          Inr (last (ea2_p_y_x_t ?m2))"
    unfolding a b by simp
  then have "copy_event 1000 (ex_event 150) =
       Inr \<lparr>ev_x = 5, ev_y = 5, ev_ts = 151000, ev_polarity = False\<rparr> \<and>
     pack_event 1000 1000 (ex_event 150) = Inr 1407396358539760"
    by (simp add: ex_driver_def ex_driver2_def)
  with a b show ?thesis by simp
qed

text \<open>
  C4. Compact \<open>dt\<close> wrap-around. After a call of the compact variant, the low 32 bits of
  the word stored for the \<open>i\<close>-th event of the slice are the event's absolute timestamp
  minus the time base of the batch, modulo \<open>2\<^sup>3\<^sup>2\<close>; when the difference is \<open>2\<^sup>3\<^sup>2 + k\<close>
  with \<open>k\<close> below \<open>2\<^sup>3\<^sup>2\<close> the stored value is \<open>k\<close>, and the call does not fail for it.
\<close>

theorem compact_dt_wraps:
  assumes "publish2 d now n evs = Inr (d', out)" and "n \<noteq> 0" and "i < length evs"
  shows "\<exists>m ts w. batch_after d' out = Some m \<and> length evs \<le> length (ea2_p_y_x_t m) \<and>
           w = ea2_p_y_x_t m ! (length (ea2_p_y_x_t m) - length evs + i) \<and>
           abs_ts (d_t0 d') (cd_t (evs ! i)) = Inr ts \<and>
           uint (unpack_dt w) = (uint ts - uint (ea2_time_base m)) mod 2 ^ 32 \<and>
           (\<forall>k. 0 \<le> k \<and> k < 2 ^ 32 \<and> uint ts - uint (ea2_time_base m) = 2 ^ 32 + k \<longrightarrow>
                uint (unpack_dt w) = k)"
proof -
  obtain m0 dd ws c0 c1 ns t_last bound where
    op: "open_msg2 (set_t0 d now) evs = Inr (m0, dd)"
    and pe: "pack_events (d_t0 dd) (ea2_time_base m0) evs (ea2_p_y_x_t m0) 0 0 = Inr (ws, c0, c1)"
    and ne: "evs \<noteq> []"
    and ts: "abs_ts (d_t0 dd) (cd_t (last evs)) = Inr ns"
    and fn: "Time_fromNSec ns = Inr t_last"
    and tp: "Time_plus (h_stamp (ea2_header m0)) (d_messageTimeThreshold dd) = Inr bound"
    and t0: "d_t0 d' = d_t0 dd"
    and yes: "bound < t_last \<Longrightarrow> out = Some (m0\<lparr>ea2_p_y_x_t := ws\<rparr>) \<and> d_msg d' = None"
    and no: "\<not> bound < t_last \<Longrightarrow>
       out = None \<and> d_msg d' = Some (m0\<lparr>ea2_p_y_x_t := ws\<rparr>)"
    by (rule publish2_Inr [OF assms(1,2)]) blast
  define m where "m = m0\<lparr>ea2_p_y_x_t := ws\<rparr>"
  have batch: "batch_after d' out = Some m"
    using yes no unfolding m_def batch_after_def by (cases "bound < t_last") auto
  from pack_events_Inr [OF pe] obtain new where
    new: "ws = ea2_p_y_x_t m0 @ new"
    and all: "list_all2 (\<lambda>e w. pack_event (d_t0 dd) (ea2_time_base m0) e = Inr w) evs new"
    by blast
  from all have len: "length new = length evs"
    and pk: "pack_event (d_t0 dd) (ea2_time_base m0) (evs ! i) = Inr (new ! i)"
    using assms(3) by (simp_all add: list_all2_conv_all_nth)
  have idx: "ea2_p_y_x_t m ! (length (ea2_p_y_x_t m) - length evs + i) = new ! i"
    using len assms(3) by (simp add: m_def new nth_append)
  from pk obtain ts where a: "abs_ts (d_t0 dd) (cd_t (evs ! i)) = Inr ts"
    and w: "new ! i = pack (cd_p (evs ! i)) (cd_y (evs ! i)) (cd_x (evs ! i))
                        ((ts - ea2_time_base m0) AND 0xFFFFFFFF)"
    by (rule pack_event_Inr)
  have dt: "uint (unpack_dt (new ! i)) = (uint ts - uint (ea2_time_base m)) mod 2 ^ 32"
    unfolding w by (simp only: unpack_dt_pack [OF masked_dt_less] uint_masked_diff)
      (simp add: m_def)
  have wrap: "uint (unpack_dt (new ! i)) = k"
    if "0 \<le> k \<and> k < 2 ^ 32 \<and> uint ts - uint (ea2_time_base m) = 2 ^ 32 + k" for k
    using that dt by simp
  have "length evs \<le> length (ea2_p_y_x_t m)" using len by (simp add: m_def new)
  with batch idx a t0 dt wrap show ?thesis by auto
qed

theorem compact_dt_wraps_witness:
  "publish2 ex_driver2 0 1 [ex_event 0, ex_event 4294968] =
     Inr (ex_driver2\<lparr>d_seq := 8,
            d_wrapper := \<lparr>eventCount0 = 2, eventCount1 = 0, eventsSent = 2, msgsSent = 1\<rparr>\<rparr>,
          Some \<lparr>ea2_header = \<lparr>h_seq = 7, h_stamp = 1000, h_frame_id = ''cam''\<rparr>,
                ea2_height = 480, ea2_width = 640, ea2_seq = 8, ea2_time_base = 1000,
                ea2_p_y_x_t = [1407396358389760, 1407396358390464], ea2_reserved = 5000\<rparr>) \<and>
   (1 :: nat) \<noteq> 0 \<and> 1 < length [ex_event 0, ex_event 4294968] \<and>
   abs_ts 1000 (cd_t (ex_event 4294968)) = Inr 4294969000 \<and>
   uint (4294969000 :: u64) - uint (1000 :: u64) = 2 ^ 32 + 704 \<and>
   uint (unpack_dt 1407396358390464) = 704"
proof -
  have a: "publish2 ex_driver2 0 1 [ex_event 0, ex_event 4294968] =
     Inr (ex_driver2\<lparr>d_seq := 8,
            d_wrapper := \<lparr>eventCount0 = 2, eventCount1 = 0, eventsSent = 2, msgsSent = 1\<rparr>\<rparr>,
          Some \<lparr>ea2_header = \<lparr>h_seq = 7, h_stamp = 1000, h_frame_id = ''cam''\<rparr>,
                ea2_height = 480, ea2_width = 640, ea2_seq = 8, ea2_time_base = 1000,
                ea2_p_y_x_t = [1407396358389760, 1407396358390464], ea2_reserved = 5000\<rparr>)"
    by (simp add: ev_defs)
  have b: "abs_ts 1000 (cd_t (ex_event 4294968)) = Inr 4294969000"
    by (simp add: ev_defs)
  have c: "(1 :: nat) \<noteq> 0" "1 < length [ex_event 0, ex_event 4294968]" by simp_all
  from compact_dt_wraps [OF a c] b show ?thesis
    using a c by (auto simp add: batch_after_def ex_driver2_def)
qed

text \<open>
  C7. Without a subscriber a call returns before it touches the message, the sequence
  number or the statistics, and publishes nothing: the driver is unchanged except that a
  time base of 0 (unset) becomes the current time; a time base already set stays.
\<close>

theorem no_subscriber_frame:
  "publish d now 0 evs = Inr (d\<lparr>d_t0 := if d_t0 d = 0 then now else d_t0 d\<rparr>, None) \<and>
   publish2 d2 now 0 evs = Inr (d2\<lparr>d_t0 := if d_t0 d2 = 0 then now else d_t0 d2\<rparr>, None)"
  by (simp add: publish_no_subscriber publish2_no_subscriber set_t0_def)

theorem no_subscriber_frame_witness:
  "publish (ex_driver\<lparr>d_t0 := 0\<rparr>) 77 0 [ex_event 0] = Inr (ex_driver\<lparr>d_t0 := 77\<rparr>, None) \<and>
   publish2 ex_driver2 77 0 [ex_event 0] = Inr (ex_driver2, None)"
  using no_subscriber_frame [of "ex_driver\<lparr>d_t0 := 0\<rparr>" 77 "[ex_event 0]" ex_driver2]
  by (simp add: ex_driver_def ex_driver2_def)

text \<open>
  C9, as the code has it. The compact encoder has no check of a field width and does not
  fail on a coordinate. \<open>x\<close> is a 16-bit value and always fits its 16-bit field. A \<open>y\<close>
  is packed whatever its value: its low 15 bits go to bits 62 to 48 and its bit 15 is
  or-ed into bit 63, the polarity bit; \<open>x\<close> and \<open>dt\<close> are stored exactly. The only failure
  of the encoder is the conversion of the timestamp.
\<close>

theorem pack_event_no_width_check:
  assumes "abs_ts t0 (cd_t e) = Inr ts"
  shows "\<exists>w. pack_event t0 tb e = Inr w \<and>
           unpack_p w = (cd_p e \<or> bit (cd_y e) 15) \<and>
           unpack_y w = take_bit 15 (ucast (cd_y e)) \<and>
           unpack_x w = ucast (cd_x e) \<and>
           unpack_dt w = (ts - tb) AND 0xFFFFFFFF"
proof -
  let ?dt = "(ts - tb) AND 0xFFFFFFFF"
  have "pack_event t0 tb e = Inr (pack (cd_p e) (cd_y e) (cd_x e) ?dt)"
    using assms by (simp add: pack_event_def)
  moreover note unpack_p_pack_any [OF masked_dt_less, of "cd_p e" "cd_y e" "cd_x e" "ts - tb"]
    unpack_y_pack_any [OF masked_dt_less, of "cd_p e" "cd_y e" "cd_x e" "ts - tb"]
    unpack_x_pack [OF masked_dt_less, of "cd_p e" "cd_y e" "cd_x e" "ts - tb"]
    unpack_dt_pack [OF masked_dt_less, of "cd_p e" "cd_y e" "cd_x e" "ts - tb"]
  ultimately show ?thesis by simp
qed

theorem pack_event_no_width_check_witness:
  "abs_ts 1000 (cd_t \<lparr>cd_x = 5, cd_y = 0x8005, cd_p = False, cd_t = 0\<rparr>) = Inr 1000 \<and>
   pack_event 1000 1000 \<lparr>cd_x = 5, cd_y = 0x8005, cd_p = False, cd_t = 0\<rparr> =
     Inr 0x8005000500000000 \<and>
   unpack_p 0x8005000500000000 = True \<and>
   unpack_y 0x8005000500000000 = 5 \<and>
   unpack_x 0x8005000500000000 = 5 \<and>
   unpack_dt 0x8005000500000000 = 0"
proof -
  let ?e = "\<lparr>cd_x = 5, cd_y = 0x8005, cd_p = False, cd_t = 0\<rparr>"
  have a: "abs_ts 1000 (cd_t ?e) = Inr 1000" by (simp add: ev_defs)
  have b: "pack_event 1000 1000 ?e = Inr 0x8005000500000000" by (simp add: ev_defs)
  from pack_event_no_width_check [OF a, of 1000] show ?thesis
    unfolding b using a by (simp add: bit_numeral_word_iff) 
qed

theorem width_violation_counterexample:
  "publish2 ex_driver2 0 1 [\<lparr>cd_x = 5, cd_y = 0x8000, cd_p = False, cd_t = 0\<rparr>] =
     Inr (ex_driver2\<lparr>d_seq := 8,
            d_msg := Some \<lparr>ea2_header = \<lparr>h_seq = 7, h_stamp = 1000, h_frame_id = ''cam''\<rparr>,
                ea2_height = 480, ea2_width = 640, ea2_seq = 8, ea2_time_base = 1000,
                ea2_p_y_x_t = [0x8000000500000000], ea2_reserved = 5000\<rparr>,
            d_wrapper := \<lparr>eventCount0 = 1, eventCount1 = 0, eventsSent = 0, msgsSent = 0\<rparr>\<rparr>,
          None) \<and>
   unpack_p 0x8000000500000000 = True \<and>
   unpack_y 0x8000000500000000 = 0"
  by (simp add: ev_defs unpack_p_def unpack_y_def bit_numeral_word_iff)

text \<open>
  C10. A call with an empty slice, a subscriber and no open message reads out of bounds
  in both variants: the generic one reads the first event of the empty vector of the new
  message, the compact one reads \<^verbatim>\<open>start->t\<close> for the time base. Neither has a guard
  for \<^verbatim>\<open>n == 0\<close>.
\<close>

theorem empty_slice_out_of_bounds:
  assumes "d_msg d = None" and "d_msg d2 = None" and "n \<noteq> 0"
  shows "publish d now n [] = Inl OutOfBounds \<and> publish2 d2 now n [] = Inl OutOfBounds"
  using assms
  by (simp add: publish_def publish2_def set_t0_def open_msg_def new_msg_def open_msg2_def
      new_msg2_def Let_def)

theorem empty_slice_out_of_bounds_witness:
  "d_msg ex_driver = None \<and> d_msg ex_driver2 = None \<and> (1 :: nat) \<noteq> 0 \<and>
   publish ex_driver 0 1 [] = Inl OutOfBounds \<and> publish2 ex_driver2 0 1 [] = Inl OutOfBounds"
proof -
  have a: "d_msg ex_driver = None" "d_msg ex_driver2 = None" "(1 :: nat) \<noteq> 0"
    by (simp_all add: ex_driver_def ex_driver2_def)
  from empty_slice_out_of_bounds [OF a] a show ?thesis by simp
qed

text \<open>
  C5. The generic variant computes \<^verbatim>\<open>t0_ + e_src.t * 1e3\<close> in \<^verbatim>\<open>double\<close>. With a time base of
  \<open>1700000000000000001\<close> ns (a wall-clock time of November 2023) and an event at sensor
  time 0 the stored timestamp is \<open>1700000000000000000\<close>, not the time base plus 0; with
  the time base \<open>2\<^sup>5\<^sup>3 + 1\<close> it is \<open>2\<^sup>5\<^sup>3\<close>. The product is 0 in both instances, so the
  result does not depend on whether the multiplication and the addition are fused. The
  compact variant, which casts the product to \<^verbatim>\<open>uint64_t\<close> before it adds, gives the exact
  sum on the same input.
\<close>

theorem verbose_timestamp_rounded:
  "copy_event 1700000000000000001 (ex_event 0) =
     Inr \<lparr>ev_x = 5, ev_y = 5, ev_ts = 1700000000000000000, ev_polarity = False\<rparr> \<and>
   copy_event 9007199254740993 (ex_event 0) =
     Inr \<lparr>ev_x = 5, ev_y = 5, ev_ts = 9007199254740992, ev_polarity = False\<rparr> \<and>
   abs_ts 1700000000000000001 (cd_t (ex_event 0)) = Inr 1700000000000000001"
  by (simp add: ev_defs bitlen_nat.simps)

lemmas start_defs = start_def Duration_fromSec_def reserve_size_def double_to_size_def
  substr_from_def spec_reserve_size_def ex_camera_def ex_params_def round_def Let_def
  rnd_double_def rnd_pos_def round_half_even_def scale_of_def pow2_def double_1e_6_def
  bitlen_nat.simps

lemma start_result:
  assumes "start ps cam = Inr (ok, d)"
  shows "ok = c_initialize cam"
  using assms unfolding start_def Let_def
  by (auto split: sum.splits if_splits)

subsection \<open>Rounding to \<^verbatim>\<open>double\<close>\<close>

lemma bitlen_nat_le: "n < 2 ^ k \<Longrightarrow> bitlen_nat n \<le> k"
proof (induction k arbitrary: n)
  case 0
  then show ?case by (simp add: bitlen_nat.simps)
next
  case (Suc k)
  show ?case
  proof (cases "n = 0")
    case True
    then show ?thesis by (simp add: bitlen_nat.simps)
  next
    case False
    from Suc.prems have "n div 2 < 2 ^ k" by simp
    then have "bitlen_nat (n div 2) \<le> k" by (rule Suc.IH)
    with False show ?thesis by (subst bitlen_nat.simps) simp
  qed
qed

lemma pow2_pos: "0 < pow2 s"
  by (simp add: pow2_def)

lemma scale_of_nonneg:
  assumes "0 < x" and "x < 2 ^ 53"
  shows "0 \<le> scale_of x"
proof (cases "1 \<le> x")
  case True
  have "nat \<lfloor>x\<rfloor> < 2 ^ 53"
  proof -
    have "\<lfloor>x\<rfloor> < 9007199254740992" using assms(2) by (simp add: floor_less_iff)
    then have "nat \<lfloor>x\<rfloor> < 9007199254740992" by linarith
    then show ?thesis by simp
  qed
  then have "bitlen_nat (nat \<lfloor>x\<rfloor>) \<le> 53" by (rule bitlen_nat_le)
  with True show ?thesis by (simp add: scale_of_def)
next
  case False
  then show ?thesis by (simp add: scale_of_def Let_def)
qed

lemma round_half_even_le:
  assumes "z \<le> of_int n"
  shows "round_half_even z \<le> n"
proof -
  have f: "\<lfloor>z\<rfloor> \<le> n" using assms by (simp add: floor_le_iff)
  show ?thesis
  proof (cases "z = of_int \<lfloor>z\<rfloor>")
    case True
    then have "z - of_int \<lfloor>z\<rfloor> = 0" by simp
    then show ?thesis using f by (simp add: round_half_even_def Let_def)
  next
    case False
    then have "of_int \<lfloor>z\<rfloor> < z" using of_int_floor_le [of z] by linarith
    with assms have "of_int \<lfloor>z\<rfloor> < (of_int n :: real)" by linarith
    then have "\<lfloor>z\<rfloor> + 1 \<le> n" by simp
    with f show ?thesis by (simp add: round_half_even_def Let_def)
  qed
qed

lemma round_half_even_nonneg:
  assumes "0 \<le> z"
  shows "0 \<le> round_half_even z"
proof -
  have "0 \<le> \<lfloor>z\<rfloor>" using assms by simp
  then show ?thesis by (simp add: round_half_even_def Let_def)
qed

lemma rnd_double_nonneg:
  assumes "0 \<le> x"
  shows "0 \<le> rnd_double x"
proof (cases "x = 0")
  case True
  then show ?thesis by (simp add: rnd_double_def)
next
  case False
  with assms have "0 \<le> x * pow2 (scale_of x)" using pow2_pos [of "scale_of x"] by simp
  then have "0 \<le> round_half_even (x * pow2 (scale_of x))" by (rule round_half_even_nonneg)
  with False assms pow2_pos [of "scale_of x"] show ?thesis
    by (simp add: rnd_double_def rnd_pos_def)
qed

lemma rnd_double_le_int:
  assumes "0 \<le> x" and "x \<le> of_int n" and "x < 2 ^ 53"
  shows "rnd_double x \<le> of_int n"
proof (cases "x = 0")
  case True
  with assms show ?thesis by (simp add: rnd_double_def)
next
  case False
  with assms have pos: "0 < x" by simp
  define k where "k = nat (scale_of x)"
  have p: "pow2 (scale_of x) = 2 ^ k"
    using scale_of_nonneg [OF pos assms(3)] by (simp add: pow2_def k_def)
  have "x * 2 ^ k \<le> of_int (n * 2 ^ k)" using assms(2) by simp
  then have "round_half_even (x * 2 ^ k) \<le> n * 2 ^ k" by (rule round_half_even_le)
  then have "(of_int (round_half_even (x * 2 ^ k)) :: real) \<le> of_int (n * 2 ^ k)"
    by (simp only: of_int_le_iff)
  then have "of_int (round_half_even (x * 2 ^ k)) / 2 ^ k \<le> (of_int n :: real)"
    by (simp add: divide_le_eq)
  with pos show ?thesis by (simp add: rnd_double_def rnd_pos_def p)
qed

lemma Duration_fromSec_nonpositive:
  assumes "- 2147483648 \<le> s" and "s \<le> 0"
  shows "\<exists>thr. Duration_fromSec s = Inr thr \<and> thr \<le> 0"
proof -
  have lo: "- 2147483648 \<le> \<lfloor>s\<rfloor>" using assms(1) by (simp add: le_floor_iff)
  have hi: "\<lfloor>s\<rfloor> \<le> 0" using assms(2) by (simp add: floor_le_iff)
  define frac where "frac = rnd_double (s - of_int \<lfloor>s\<rfloor>)"
  define ns where "ns = round (rnd_double (frac * 1000000000))"
  have f0: "0 \<le> s - of_int \<lfloor>s\<rfloor>" and f1: "s - of_int \<lfloor>s\<rfloor> < 1" by linarith+
  have frac0: "0 \<le> frac" unfolding frac_def using f0 by (rule rnd_double_nonneg)
  have frac1: "frac \<le> 1"
    using rnd_double_le_int [of "s - of_int \<lfloor>s\<rfloor>" 1] f0 f1 by (simp add: frac_def)
  have "rnd_double (frac * 1000000000) \<le> of_int 1000000000"
    using frac0 frac1 by (intro rnd_double_le_int) simp_all
  then have ns1: "ns \<le> 1000000000" unfolding ns_def round_def by (simp add: floor_le_iff)
  have thr: "Duration_fromSec s = Inr (\<lfloor>s\<rfloor> * 1000000000 + ns)"
    using lo hi by (simp add: Duration_fromSec_def Let_def ns_def frac_def)
  show ?thesis
  proof (cases "s = 0")
    case True
    then have "ns = 0" by (simp add: ns_def frac_def rnd_double_def)
    with thr True show ?thesis by simp
  next
    case False
    with assms(2) have "s < 0" by simp
    then have "\<lfloor>s\<rfloor> \<le> - 1" by (simp add: floor_le_iff)
    with ns1 have "\<lfloor>s\<rfloor> * 1000000000 + ns \<le> 0" by linarith
    with thr show ?thesis by simp
  qed
qed

lemma reserve_size_zero: "reserve_size 0 mtt = Inr 0"
  by (simp add: reserve_size_def rnd_double_def double_to_size_def)

subsection \<open>The started driver\<close>

lemma open_msg_reserved:
  assumes "open_msg d = (m, d2)" and "d_msg d = None"
  shows "ea_reserved m = d_reserveSize d"
  using assms by (auto simp add: open_msg_def new_msg_def)

lemma open_msg2_reserved:
  assumes "open_msg2 d evs = Inr (m, d2)" and "d_msg d = None"
  shows "ea2_reserved m = d_reserveSize d"
  using assms
  by (auto simp add: open_msg2_def new_msg2_def split: sum.splits list.splits)

lemma set_t0_reserveSize: "d_reserveSize (set_t0 d now) = d_reserveSize d"
  by (simp add: set_t0_def)

lemma publish_started:
  assumes p: "publish d now n evs = Inr (d', out)" and n: "n \<noteq> 0" and fresh: "d_msg d = None"
  shows "\<exists>m. batch_after d' out = Some m \<and> ea_reserved m = d_reserveSize d \<and>
           ea_events m \<noteq> [] \<and>
           ((out \<noteq> None) =
            (int (ev_ts (hd (ea_events m))) + d_messageTimeThreshold d
               < int (ev_ts (last (ea_events m)))))"
proof -
  obtain m d2 events c0 c1 bound where
    op: "open_msg (set_t0 d now) = (m, d2)"
    and "copy_events (d_t0 d2) evs (ea_events m) 0 0 = Inr (events, c0, c1)"
    and ne: "events \<noteq> []"
    and tp: "Time_plus (ev_ts (hd events)) (d_messageTimeThreshold d2) = Inr bound"
    and "d_t0 d' = d_t0 d2"
    and yes: "bound < ev_ts (last events) \<Longrightarrow>
       out = Some (m\<lparr>ea_header := (ea_header m)\<lparr>h_stamp := ev_ts (hd events)\<rparr>,
                     ea_events := events\<rparr>) \<and> d_msg d' = None"
    and no: "\<not> bound < ev_ts (last events) \<Longrightarrow>
       out = None \<and> d_msg d' = Some (m\<lparr>ea_events := events\<rparr>)"
    by (rule publish_Inr [OF p n]) blast
  have thr: "d_messageTimeThreshold d2 = d_messageTimeThreshold d"
    using open_msg_fields(2) [OF op] by (simp add: set_t0_fields)
  have res: "ea_reserved m = d_reserveSize d"
    using open_msg_reserved [OF op] fresh by (simp add: set_t0_fields set_t0_reserveSize)
  have b: "int bound = int (ev_ts (hd events)) + d_messageTimeThreshold d"
    using Time_plus_Inr [OF tp] thr by simp
  show ?thesis
  proof (cases "bound < ev_ts (last events)")
    case True
    then have "int (ev_ts (hd events)) + d_messageTimeThreshold d < int (ev_ts (last events))"
      using b by linarith
    with yes [OF True] ne res show ?thesis by (simp add: batch_after_def)
  next
    case False
    then have "\<not> int (ev_ts (hd events)) + d_messageTimeThreshold d < int (ev_ts (last events))"
      using b by linarith
    with no [OF False] ne res show ?thesis by (simp add: batch_after_def)
  qed
qed

lemma publish2_started:
  assumes p: "publish2 d now n evs = Inr (d', out)" and n: "n \<noteq> 0" and fresh: "d_msg d = None"
  shows "\<exists>m ts. batch_after d' out = Some m \<and> ea2_reserved m = d_reserveSize d \<and>
           abs_ts (d_t0 d') (cd_t (last evs)) = Inr ts \<and>
           ((out \<noteq> None) =
            (int (h_stamp (ea2_header m)) + d_messageTimeThreshold d < uint ts))"
proof -
  obtain m dd ws c0 c1 ns t_last bound where
    op: "open_msg2 (set_t0 d now) evs = Inr (m, dd)"
    and "pack_events (d_t0 dd) (ea2_time_base m) evs (ea2_p_y_x_t m) 0 0 = Inr (ws, c0, c1)"
    and ne: "evs \<noteq> []"
    and ts: "abs_ts (d_t0 dd) (cd_t (last evs)) = Inr ns"
    and fn: "Time_fromNSec ns = Inr t_last"
    and tp: "Time_plus (h_stamp (ea2_header m)) (d_messageTimeThreshold dd) = Inr bound"
    and t0: "d_t0 d' = d_t0 dd"
    and yes: "bound < t_last \<Longrightarrow> out = Some (m\<lparr>ea2_p_y_x_t := ws\<rparr>) \<and> d_msg d' = None"
    and no: "\<not> bound < t_last \<Longrightarrow>
       out = None \<and> d_msg d' = Some (m\<lparr>ea2_p_y_x_t := ws\<rparr>)"
    by (rule publish2_Inr [OF p n]) blast
  have thr: "d_messageTimeThreshold dd = d_messageTimeThreshold d"
    using open_msg2_fields(2) [OF op] by (simp add: set_t0_fields)
  have res: "ea2_reserved m = d_reserveSize d"
    using open_msg2_reserved [OF op] fresh by (simp add: set_t0_fields set_t0_reserveSize)
  have b: "int bound = int (h_stamp (ea2_header m)) + d_messageTimeThreshold d"
    using Time_plus_Inr [OF tp] thr by simp
  have tl: "int t_last = uint ns" using Time_fromNSec_Inr [OF fn] by simp
  show ?thesis
  proof (cases "bound < t_last")
    case True
    then have "int (h_stamp (ea2_header m)) + d_messageTimeThreshold d < uint ns"
      using b tl by linarith
    with yes [OF True] ts t0 res show ?thesis by (simp add: batch_after_def)
  next
    case False
    then have "\<not> int (h_stamp (ea2_header m)) + d_messageTimeThreshold d < uint ns"
      using b tl by linarith
    with no [OF False] ts t0 res show ?thesis by (simp add: batch_after_def)
  qed
qed

lemma start_accepts:
  assumes "c_initialize cam" and "p_frame_id ps \<noteq> []"
    and "Duration_fromSec (p_message_time_threshold ps) = Inr thr"
    and "reserve_size (p_sensors_max_mevs ps) (p_message_time_threshold ps) = Inr rs"
  shows "\<exists>d. start ps cam = Inr (True, d) \<and> d_messageTimeThreshold d = thr \<and>
           d_reserveSize d = rs \<and> d_msg d = None"
  using assms by (simp add: start_def Let_def)

text \<open>
  C8, as the code has it. \<^verbatim>\<open>start\<close> has no check of the threshold or of the reservation
  size. When it returns, it returns what the initialisation of the camera wrapper
  returned. With a camera that initialises and a frame id it returns true whenever the
  two conversions are defined, \<^verbatim>\<open>ros::Duration(mtt)\<close> and the cast of the quotient to
  \<^verbatim>\<open>size_t\<close>, and it stores their results as they are. The driver it returns is the one
  \<^verbatim>\<open>publish\<close> runs on: a call that returns has reserved the stored size for its batch
  and has tested the flush with the stored threshold. Every threshold from \<open>-2\<^sup>3\<^sup>1\<close>
  seconds to 0 converts to a duration that is not positive, and \<^verbatim>\<open>sensors_max_mevs\<close> 0
  gives the reservation size 0 under every threshold.
\<close>

theorem start_validates_nothing:
  "(start ps cam = Inr (ok, d) \<longrightarrow> ok = c_initialize cam) \<and>
   (c_initialize cam \<and> p_frame_id ps \<noteq> [] \<and>
    Duration_fromSec (p_message_time_threshold ps) = Inr thr \<and>
    reserve_size (p_sensors_max_mevs ps) (p_message_time_threshold ps) = Inr rs \<longrightarrow>
      (\<exists>d1. start ps cam = Inr (True, d1) \<and> d_messageTimeThreshold d1 = thr \<and>
            d_reserveSize d1 = rs \<and>
            (publish d1 now n evs = Inr (d1', out1) \<and> n \<noteq> 0 \<longrightarrow>
               (\<exists>m. batch_after d1' out1 = Some m \<and> ea_reserved m = rs \<and>
                    ea_events m \<noteq> [] \<and>
                    ((out1 \<noteq> None) =
                     (int (ev_ts (hd (ea_events m))) + thr
                        < int (ev_ts (last (ea_events m)))))))) \<and>
      (\<exists>d2. start ps cam = Inr (True, d2) \<and> d_messageTimeThreshold d2 = thr \<and>
            d_reserveSize d2 = rs \<and>
            (publish2 d2 now n evs = Inr (d2', out2) \<and> n \<noteq> 0 \<longrightarrow>
               (\<exists>m ts. batch_after d2' out2 = Some m \<and> ea2_reserved m = rs \<and>
                    abs_ts (d_t0 d2') (cd_t (last evs)) = Inr ts \<and>
                    ((out2 \<noteq> None) =
                     (int (h_stamp (ea2_header m)) + thr < uint ts)))))) \<and>
   (- 2147483648 \<le> s \<and> s \<le> 0 \<longrightarrow> (\<exists>t. Duration_fromSec s = Inr t \<and> t \<le> 0)) \<and>
   reserve_size 0 mtt = Inr 0"
proof (intro conjI impI)
  assume "start ps cam = Inr (ok, d)"
  then show "ok = c_initialize cam" by (rule start_result)
next
  assume a: "c_initialize cam \<and> p_frame_id ps \<noteq> [] \<and>
    Duration_fromSec (p_message_time_threshold ps) = Inr thr \<and>
    reserve_size (p_sensors_max_mevs ps) (p_message_time_threshold ps) = Inr rs"
  then obtain d1 :: "EventArray Driver" where s: "start ps cam = Inr (True, d1)"
    and t: "d_messageTimeThreshold d1 = thr" and r: "d_reserveSize d1 = rs"
    and f: "d_msg d1 = None"
    using start_accepts [of cam ps thr rs] by blast
  have "\<exists>m. batch_after d1' out1 = Some m \<and> ea_reserved m = rs \<and> ea_events m \<noteq> [] \<and>
          ((out1 \<noteq> None) =
           (int (ev_ts (hd (ea_events m))) + thr < int (ev_ts (last (ea_events m)))))"
    if "publish d1 now n evs = Inr (d1', out1) \<and> n \<noteq> 0"
    using publish_started [of d1 now n evs d1' out1] that f t r by simp
  with s t r
  show "\<exists>d1. start ps cam = Inr (True, d1) \<and> d_messageTimeThreshold d1 = thr \<and>
            d_reserveSize d1 = rs \<and>
            (publish d1 now n evs = Inr (d1', out1) \<and> n \<noteq> 0 \<longrightarrow>
               (\<exists>m. batch_after d1' out1 = Some m \<and> ea_reserved m = rs \<and>
                    ea_events m \<noteq> [] \<and>
                    ((out1 \<noteq> None) =
                     (int (ev_ts (hd (ea_events m))) + thr
                        < int (ev_ts (last (ea_events m)))))))"
    by blast
next
  assume a: "c_initialize cam \<and> p_frame_id ps \<noteq> [] \<and>
    Duration_fromSec (p_message_time_threshold ps) = Inr thr \<and>
    reserve_size (p_sensors_max_mevs ps) (p_message_time_threshold ps) = Inr rs"
  then obtain d2 :: "EventArray2 Driver" where s: "start ps cam = Inr (True, d2)"
    and t: "d_messageTimeThreshold d2 = thr" and r: "d_reserveSize d2 = rs"
    and f: "d_msg d2 = None"
    using start_accepts [of cam ps thr rs] by blast
  have "\<exists>m ts. batch_after d2' out2 = Some m \<and> ea2_reserved m = rs \<and>
          abs_ts (d_t0 d2') (cd_t (last evs)) = Inr ts \<and>
          ((out2 \<noteq> None) = (int (h_stamp (ea2_header m)) + thr < uint ts))"
    if "publish2 d2 now n evs = Inr (d2', out2) \<and> n \<noteq> 0"
    using publish2_started [of d2 now n evs d2' out2] that f t r by simp
  with s t r
  show "\<exists>d2. start ps cam = Inr (True, d2) \<and> d_messageTimeThreshold d2 = thr \<and>
            d_reserveSize d2 = rs \<and>
            (publish2 d2 now n evs = Inr (d2', out2) \<and> n \<noteq> 0 \<longrightarrow>
               (\<exists>m ts. batch_after d2' out2 = Some m \<and> ea2_reserved m = rs \<and>
                    abs_ts (d_t0 d2') (cd_t (last evs)) = Inr ts \<and>
                    ((out2 \<noteq> None) =
                     (int (h_stamp (ea2_header m)) + thr < uint ts))))"
    by blast
next
  assume "- 2147483648 \<le> s \<and> s \<le> 0"
  then show "\<exists>t. Duration_fromSec s = Inr t \<and> t \<le> 0"
    using Duration_fromSec_nonpositive [of s] by simp
next
  show "reserve_size 0 mtt = Inr 0" by (rule reserve_size_zero)
qed

theorem start_validates_nothing_witness:
  "(start (ex_params 0 0) ex_camera :: error + bool \<times> EventArray Driver) =
     Inr (True, \<lparr>d_frameId = ''cam'', d_messageTimeThreshold = 0, d_reserveSize = 0,
                 d_t0 = 0, d_width = 640, d_height = 480, d_seq = 0, d_msg = None,
                 d_wrapper = ex_stats\<rparr>) \<and>
   (start (ex_params 0 0) ex_camera :: error + bool \<times> EventArray2 Driver) =
     Inr (True, \<lparr>d_frameId = ''cam'', d_messageTimeThreshold = 0, d_reserveSize = 0,
                 d_t0 = 0, d_width = 640, d_height = 480, d_seq = 0, d_msg = None,
                 d_wrapper = ex_stats\<rparr>) \<and>
   c_initialize ex_camera \<and> p_frame_id (ex_params 0 0) \<noteq> [] \<and>
   Duration_fromSec (p_message_time_threshold (ex_params 0 0)) = Inr 0 \<and>
   reserve_size (p_sensors_max_mevs (ex_params 0 0)) (p_message_time_threshold (ex_params 0 0))
     = Inr 0 \<and>
   publish \<lparr>d_frameId = ''cam'', d_messageTimeThreshold = 0, d_reserveSize = 0,
            d_t0 = 0, d_width = 640, d_height = 480, d_seq = 0, d_msg = None,
            d_wrapper = ex_stats\<rparr> 1000 1 [ex_event 0, ex_event 1] =
     Inr (\<lparr>d_frameId = ''cam'', d_messageTimeThreshold = 0, d_reserveSize = 0,
            d_t0 = 1000, d_width = 640, d_height = 480, d_seq = 1, d_msg = None,
            d_wrapper = \<lparr>eventCount0 = 2, eventCount1 = 0, eventsSent = 2, msgsSent = 1\<rparr>\<rparr>,
          Some \<lparr>ea_header = \<lparr>h_seq = 0, h_stamp = 1000, h_frame_id = ''cam''\<rparr>,
                ea_height = 480, ea_width = 640,
                ea_events = [\<lparr>ev_x = 5, ev_y = 5, ev_ts = 1000, ev_polarity = False\<rparr>,
                             \<lparr>ev_x = 5, ev_y = 5, ev_ts = 2000, ev_polarity = False\<rparr>],
                ea_reserved = 0\<rparr>) \<and>
   publish2 \<lparr>d_frameId = ''cam'', d_messageTimeThreshold = 0, d_reserveSize = 0,
             d_t0 = 0, d_width = 640, d_height = 480, d_seq = 0, d_msg = None,
             d_wrapper = ex_stats\<rparr> 1000 1 [ex_event 0, ex_event 1] =
     Inr (\<lparr>d_frameId = ''cam'', d_messageTimeThreshold = 0, d_reserveSize = 0,
            d_t0 = 1000, d_width = 640, d_height = 480, d_seq = 1, d_msg = None,
            d_wrapper = \<lparr>eventCount0 = 2, eventCount1 = 0, eventsSent = 2, msgsSent = 1\<rparr>\<rparr>,
          Some \<lparr>ea2_header = \<lparr>h_seq = 0, h_stamp = 1000, h_frame_id = ''cam''\<rparr>,
                ea2_height = 480, ea2_width = 640, ea2_seq = 1, ea2_time_base = 1000,
                ea2_p_y_x_t = [1407396358389760, 1407396358390760],
                ea2_reserved = 0\<rparr>) \<and>
   (1 :: nat) \<noteq> 0 \<and>
   (1000 :: int) + 0 < 2000 \<and>
   - 2147483648 \<le> (- 1 / 8 :: real) \<and> (- 1 / 8 :: real) \<le> 0 \<and>
   Duration_fromSec (- 1 / 8) = Inr (- 125000000) \<and>
   reserve_size 0 (1 / 8192) = Inr 0"
proof -
  let ?d1 = "\<lparr>d_frameId = ''cam'', d_messageTimeThreshold = 0, d_reserveSize = 0,
            d_t0 = 0, d_width = 640, d_height = 480, d_seq = 0,
            d_msg = (None :: EventArray option), d_wrapper = ex_stats\<rparr>"
  let ?d2 = "\<lparr>d_frameId = ''cam'', d_messageTimeThreshold = 0, d_reserveSize = 0,
            d_t0 = 0, d_width = 640, d_height = 480, d_seq = 0,
            d_msg = (None :: EventArray2 option), d_wrapper = ex_stats\<rparr>"
  let ?d1' = "\<lparr>d_frameId = ''cam'', d_messageTimeThreshold = 0, d_reserveSize = 0,
            d_t0 = 1000, d_width = 640, d_height = 480, d_seq = 1,
            d_msg = (None :: EventArray option),
            d_wrapper = \<lparr>eventCount0 = 2, eventCount1 = 0, eventsSent = 2, msgsSent = 1\<rparr>\<rparr>"
  let ?d2' = "\<lparr>d_frameId = ''cam'', d_messageTimeThreshold = 0, d_reserveSize = 0,
            d_t0 = 1000, d_width = 640, d_height = 480, d_seq = 1,
            d_msg = (None :: EventArray2 option),
            d_wrapper = \<lparr>eventCount0 = 2, eventCount1 = 0, eventsSent = 2, msgsSent = 1\<rparr>\<rparr>"
  let ?m1 = "\<lparr>ea_header = \<lparr>h_seq = 0, h_stamp = 1000, h_frame_id = ''cam''\<rparr>,
                ea_height = 480, ea_width = 640,
                ea_events = [\<lparr>ev_x = 5, ev_y = 5, ev_ts = 1000, ev_polarity = False\<rparr>,
                             \<lparr>ev_x = 5, ev_y = 5, ev_ts = 2000, ev_polarity = False\<rparr>],
                ea_reserved = 0\<rparr>"
  let ?m2 = "\<lparr>ea2_header = \<lparr>h_seq = 0, h_stamp = 1000, h_frame_id = ''cam''\<rparr>,
                ea2_height = 480, ea2_width = 640, ea2_seq = 1, ea2_time_base = 1000,
                ea2_p_y_x_t = [1407396358389760, 1407396358390760],
                ea2_reserved = 0\<rparr>"
  let ?evs = "[ex_event 0, ex_event 1]"
  have s1: "start (ex_params 0 0) ex_camera = Inr (True, ?d1)"
    by (simp add: start_defs ex_stats_def)
  have s2: "start (ex_params 0 0) ex_camera = Inr (True, ?d2)"
    by (simp add: start_defs ex_stats_def)
  have h: "c_initialize ex_camera \<and> p_frame_id (ex_params 0 0) \<noteq> [] \<and>
     Duration_fromSec (p_message_time_threshold (ex_params 0 0)) = Inr 0 \<and>
     reserve_size (p_sensors_max_mevs (ex_params 0 0))
       (p_message_time_threshold (ex_params 0 0)) = Inr 0"
    by (simp add: start_defs)
  have p1: "publish ?d1 1000 1 ?evs = Inr (?d1', Some ?m1)" by (simp add: ev_defs)
  have p2: "publish2 ?d2 1000 1 ?evs = Inr (?d2', Some ?m2)" by (simp add: ev_defs)
  have n: "(1 :: nat) \<noteq> 0" by simp
  have r: "- 2147483648 \<le> (- 1 / 8 :: real) \<and> (- 1 / 8 :: real) \<le> 0" by simp
  have dneg: "Duration_fromSec (- 1 / 8) = Inr (- 125000000)" by (simp add: start_defs)
  note t = start_validates_nothing [of "ex_params 0 0" ex_camera True ?d1 0 0 1000 1 ?evs
      ?d1' "Some ?m1" ?d2' "Some ?m2" "- 1 / 8" "1 / 8192"]
  from t have rz: "reserve_size 0 (1 / 8192) = Inr 0" by blast
  from t h have "\<exists>d1. start (ex_params 0 0) ex_camera = Inr (True, d1) \<and>
       (publish d1 1000 1 ?evs = Inr (?d1', Some ?m1) \<and> (1 :: nat) \<noteq> 0 \<longrightarrow>
          (\<exists>m. batch_after ?d1' (Some ?m1) = Some m \<and>
             ((Some ?m1 \<noteq> None) =
              (int (ev_ts (hd (ea_events m))) + 0 < int (ev_ts (last (ea_events m)))))))"
    by blast
  with s1 p1 n have "(1000 :: int) + 0 < 2000" by (simp add: batch_after_def)
  with s1 s2 h p1 p2 n r dneg rz show ?thesis by simp
qed

theorem degenerate_configuration_counterexample:
  "(start (ex_params 0 0) ex_camera :: error + bool \<times> EventArray2 Driver) =
     Inr (True, \<lparr>d_frameId = ''cam'', d_messageTimeThreshold = 0, d_reserveSize = 0,
                 d_t0 = 0, d_width = 640, d_height = 480, d_seq = 0, d_msg = None,
                 d_wrapper = ex_stats\<rparr>) \<and>
   p_message_time_threshold (ex_params 0 0) = 0 \<and>
   reserve_size (p_sensors_max_mevs (ex_params 0 0)) (p_message_time_threshold (ex_params 0 0))
     = Inr 0 \<and>
   publish2 \<lparr>d_frameId = ''cam'', d_messageTimeThreshold = 0, d_reserveSize = 0,
             d_t0 = 0, d_width = 640, d_height = 480, d_seq = 0, d_msg = None,
             d_wrapper = ex_stats\<rparr> 1000 1 [ex_event 0, ex_event 1] =
     Inr (\<lparr>d_frameId = ''cam'', d_messageTimeThreshold = 0, d_reserveSize = 0,
            d_t0 = 1000, d_width = 640, d_height = 480, d_seq = 1, d_msg = None,
            d_wrapper = \<lparr>eventCount0 = 2, eventCount1 = 0, eventsSent = 2, msgsSent = 1\<rparr>\<rparr>,
          Some \<lparr>ea2_header = \<lparr>h_seq = 0, h_stamp = 1000, h_frame_id = ''cam''\<rparr>,
                ea2_height = 480, ea2_width = 640, ea2_seq = 1, ea2_time_base = 1000,
                ea2_p_y_x_t = [1407396358389760, 1407396358390760],
                ea2_reserved = 0\<rparr>)"
proof -
  have "(start (ex_params 0 0) ex_camera :: error + bool \<times> EventArray2 Driver) =
     Inr (True, \<lparr>d_frameId = ''cam'', d_messageTimeThreshold = 0, d_reserveSize = 0,
                 d_t0 = 0, d_width = 640, d_height = 480, d_seq = 0, d_msg = None,
                 d_wrapper = ex_stats\<rparr>) \<and>
   p_message_time_threshold (ex_params 0 0) = 0 \<and>
   reserve_size (p_sensors_max_mevs (ex_params 0 0)) (p_message_time_threshold (ex_params 0 0))
     = Inr 0"
    by (simp add: start_defs ex_stats_def)
  moreover have "publish2 \<lparr>d_frameId = ''cam'', d_messageTimeThreshold = 0, d_reserveSize = 0,
             d_t0 = 0, d_width = 640, d_height = 480, d_seq = 0, d_msg = None,
             d_wrapper = ex_stats\<rparr> 1000 1 [ex_event 0, ex_event 1] =
     Inr (\<lparr>d_frameId = ''cam'', d_messageTimeThreshold = 0, d_reserveSize = 0,
            d_t0 = 1000, d_width = 640, d_height = 480, d_seq = 1, d_msg = None,
            d_wrapper = \<lparr>eventCount0 = 2, eventCount1 = 0, eventsSent = 2, msgsSent = 1\<rparr>\<rparr>,
          Some \<lparr>ea2_header = \<lparr>h_seq = 0, h_stamp = 1000, h_frame_id = ''cam''\<rparr>,
                ea2_height = 480, ea2_width = 640, ea2_seq = 1, ea2_time_base = 1000,
                ea2_p_y_x_t = [1407396358389760, 1407396358390760],
                ea2_reserved = 0\<rparr>)"
    by (simp add: ev_defs)
  ultimately show ?thesis by blast
qed

text \<open>
  The quotient is rounded as the \<^verbatim>\<open>double\<close> division rounds it: 10 over the \<^verbatim>\<open>double\<close>
  \<^verbatim>\<open>1e-5\<close> gives 999999, the \<^verbatim>\<open>double\<close> 0.3 over the clamp \<^verbatim>\<open>1e-6\<close> gives 300000, and 50
  over the \<^verbatim>\<open>double\<close> \<^verbatim>\<open>100e-6\<close>, the defaults, gives 500000.
\<close>

lemma reserve_size_rounds_as_double:
  "reserve_size 10 (5902958103587057 / 590295810358705651712) = Inr 999999 \<and>
   reserve_size (5404319552844595 / 18014398509481984) 0 = Inr 300000 \<and>
   reserve_size 50 (7378697629483821 / 73786976294838206464) = Inr 500000"
  by (simp add: start_defs)

lemma new_msg_reserved:
  "ea_reserved (new_msg d) = d_reserveSize d"
  "new_msg2 d2 evs = Inr m2 \<Longrightarrow> ea2_reserved m2 = d_reserveSize d2"
  by (auto simp add: new_msg_def new_msg2_def split: list.splits sum.splits)

text \<open>
  C6. \<^verbatim>\<open>start\<close> computes the reservation as \<^verbatim>\<open>sensors_max_mevs / max(mtt, 1e-6)\<close>: the rate
  in millions of events per second divided by the threshold. With the defaults, 50 and
  100 microseconds, it is 500000, where the rate times the threshold is 5000 events.
  With 64 and \<open>2\<^sup>-\<^sup>1\<^sup>3\<close> seconds, where every operation is exact in \<^verbatim>\<open>double\<close>, it is 524288
  against 7812; with 64 and \<open>2\<^sup>-\<^sup>6\<close> seconds it is 4096 against a million, so that the
  resize in \<^verbatim>\<open>publish\<close> can outgrow the reservation. A new message does reserve the
  stored size (\<open>new_msg_reserved\<close>).
\<close>

theorem reserve_size_divides:
  "(start (ex_params (1 / 10000) 50) ex_camera :: error + bool \<times> EventArray2 Driver) =
     Inr (True, \<lparr>d_frameId = ''cam'', d_messageTimeThreshold = 100000, d_reserveSize = 500000,
                 d_t0 = 0, d_width = 640, d_height = 480, d_seq = 0, d_msg = None,
                 d_wrapper = ex_stats\<rparr>) \<and>
   spec_reserve_size 50 (1 / 10000) = 5000 \<and>
   reserve_size 64 (1 / 8192) = Inr 524288 \<and>
   spec_reserve_size 64 (1 / 8192) = 7812 \<and>
   reserve_size 64 (1 / 64) = Inr 4096 \<and>
   spec_reserve_size 64 (1 / 64) = 1000000"
  by (simp add: start_defs ex_stats_def)

end
